theory Spec2Isabelle
  imports Complex_Main
begin

section \<open>Data model\<close>

text \<open>
  The rows of the Prisma tables read or written by \<^verbatim>\<open>CartService\<close> and
  \<^verbatim>\<open>OrderService\<close> (\<^verbatim>\<open>backend/src/services/cartService.ts\<close>). Identifiers and names
  are strings. Quantities and stock are integers (Prisma \<^verbatim>\<open>Int\<close>). Prices, discounts and
  totals are JavaScript numbers; they are modelled as exact rationals, so the arithmetic
  below is the real-number arithmetic the source writes down, without the representation
  error of IEEE doubles. Timestamps, descriptions, images and categories are not read by
  any operation modelled here and are left out.
\<close>

record product =
  prod_id :: string
  prod_name :: string
  prod_price :: rat
  prod_stock :: int
  prod_discount :: "rat option"

record cartItem =
  ci_id :: string
  ci_userId :: string
  ci_productId :: string
  ci_quantity :: int

datatype OrderStatus = PENDING | CONFIRMED | PROCESSING | SHIPPED | DELIVERED | CANCELLED | RETURNED

datatype PaymentStatus = PAYMENT_PENDING | PAID | FAILED | REFUNDED

datatype PaymentMethod = Card | Cash

record CreateOrderData =
  firstName :: string
  lastName :: string
  email :: string
  phone :: string
  address :: string
  city :: string
  postalCode :: "string option"
  paymentMethod :: PaymentMethod

record orderItem =
  oi_orderId :: string
  oi_productId :: string
  oi_quantity :: int
  oi_price :: rat

text \<open>
  \<open>ord_shippingAddress\<close> stands for the JSON object the source serialises: the seven
  address fields in order, with \<^verbatim>\<open>postalCode || ''\<close> applied.
\<close>

record order =
  ord_id :: string
  ord_userId :: string
  ord_status :: OrderStatus
  ord_totalAmount :: rat
  ord_shippingAddress :: "string list"
  ord_paymentMethod :: PaymentMethod
  ord_paymentStatus :: PaymentStatus

record db =
  db_products :: "product list"
  db_cartItems :: "cartItem list"
  db_orders :: "order list"
  db_orderItems :: "orderItem list"

text \<open>
  Every \<^verbatim>\<open>throw new Error(message)\<close> of the two services is one constructor; the
  interpolated values of the message are its arguments. The last four are what the
  database client raises: a required relation that is missing, an update whose
  \<^verbatim>\<open>where\<close> matches no row, a duplicate primary key, and a failure of the connection or
  of a statement (\<open>DatabaseError\<close>).
\<close>

datatype cartError =
  CartIsEmptyMsg
  | OnlyAvailableButRequested string int int

datatype error =
  ProductNotFound
  | OnlyItemsAvailable int
  | CannotAddMore int int
  | QuantityMustBePositive
  | CartItemNotFound
  | CartValidationFailed "cartError list"
  | CartIsEmpty
  | FailedToCreateOrder
  | OrderNotFound
  | InvalidStatusTransition OrderStatus OrderStatus
  | UnauthorizedToCancel
  | CannotCancelOrder OrderStatus
  | InconsistentQueryResult
  | RecordNotFound
  | UniqueConstraintViolation
  | DatabaseError

section \<open>Cart service\<close>

subsection \<open>Rounding\<close>

text \<open>
  \<^verbatim>\<open>Math.round(x)\<close> is the integer nearest to \<open>x\<close>, ties going up: \<open>\<lfloor>x + 1/2\<rfloor>\<close>.
  \<open>round2 x\<close> is the source's \<^verbatim>\<open>Math.round(x * 100) / 100\<close>.
\<close>

definition Math_round :: "rat \<Rightarrow> int" where
  "Math_round x = \<lfloor>x + 1 / 2\<rfloor>"

definition round2 :: "rat \<Rightarrow> rat" where
  "round2 x = of_int (Math_round (x * 100)) / 100"

subsection \<open>calculateCartSummary\<close>

record CartSummary =
  cs_items :: "(cartItem \<times> product) list"
  cs_totalItems :: int
  cs_subtotal :: rat
  cs_discount :: rat
  cs_total :: rat

text \<open>\<^verbatim>\<open>item.product.discount ?? 0\<close>: a \<^verbatim>\<open>null\<close> discount counts as 0 percent.\<close>

definition discountPct :: "product \<Rightarrow> rat" where
  "discountPct p = (case prod_discount p of None \<Rightarrow> 0 | Some d \<Rightarrow> d)"

text \<open>The \<^verbatim>\<open>for\<close> loop of \<^verbatim>\<open>calculateCartSummary\<close> with its three accumulators.\<close>

fun summaryLoop :: "(cartItem \<times> product) list \<Rightarrow> rat \<Rightarrow> rat \<Rightarrow> int \<Rightarrow> rat \<times> rat \<times> int" where
  "summaryLoop [] subtotal discount totalItems = (subtotal, discount, totalItems)"
| "summaryLoop (item # rest) subtotal discount totalItems =
     (let itemPrice = prod_price (snd item);
          itemDiscount = discountPct (snd item);
          itemQuantity = ci_quantity (fst item);
          itemSubtotal = itemPrice * of_int itemQuantity;
          itemDiscountAmount = (itemSubtotal * itemDiscount) / 100
      in summaryLoop rest (subtotal + itemSubtotal) (discount + itemDiscountAmount)
           (totalItems + itemQuantity))"

definition calculateCartSummary :: "(cartItem \<times> product) list \<Rightarrow> CartSummary" where
  "calculateCartSummary cartItems =
     (case summaryLoop cartItems 0 0 0 of
        (subtotal, discount, totalItems) \<Rightarrow>
          (let total = subtotal - discount
           in \<lparr> cs_items = cartItems,
                cs_totalItems = totalItems,
                cs_subtotal = round2 subtotal,
                cs_discount = round2 discount,
                cs_total = round2 total \<rparr>))"

subsection \<open>Reading the cart\<close>

text \<open>
  \<^verbatim>\<open>include: { product: ... }\<close> joins every cart row with the product its \<^verbatim>\<open>productId\<close>
  names. The relation is required: a row whose product is missing makes the query fail.
\<close>

definition product_findUnique :: "string \<Rightarrow> db \<Rightarrow> product option" where
  "product_findUnique productId d = find (\<lambda>p. prod_id p = productId) (db_products d)"

fun includeProduct :: "db \<Rightarrow> cartItem list \<Rightarrow> error + (cartItem \<times> product) list" where
  "includeProduct d [] = Inr []"
| "includeProduct d (c # cs) =
     (case product_findUnique (ci_productId c) d of
        None \<Rightarrow> Inl InconsistentQueryResult
      | Some p \<Rightarrow>
          (case includeProduct d cs of
             Inl e \<Rightarrow> Inl e
           | Inr rows \<Rightarrow> Inr ((c, p) # rows)))"

definition cartItem_findMany :: "string \<Rightarrow> db \<Rightarrow> error + (cartItem \<times> product) list" where
  "cartItem_findMany userId d =
     includeProduct d (filter (\<lambda>c. ci_userId c = userId) (db_cartItems d))"

subsection \<open>addToCart\<close>

text \<open>
  \<open>newId\<close> is the identifier that \<^verbatim>\<open>@default(cuid())\<close> gives a created row; a primary key
  that is already taken makes the insert fail.
\<close>

definition addToCart ::
  "string \<Rightarrow> string \<Rightarrow> string \<Rightarrow> int \<Rightarrow> db \<Rightarrow> (error + cartItem \<times> product) \<times> db" where
  "addToCart newId userId productId quantity d =
     (case product_findUnique productId d of
        None \<Rightarrow> (Inl ProductNotFound, d)
      | Some product \<Rightarrow>
          if prod_stock product < quantity
          then (Inl (OnlyItemsAvailable (prod_stock product)), d)
          else
            (case find (\<lambda>c. ci_userId c = userId \<and> ci_productId c = productId) (db_cartItems d) of
               Some existingCartItem \<Rightarrow>
                 (let newQuantity = ci_quantity existingCartItem + quantity
                  in if newQuantity > prod_stock product
                     then (Inl (CannotAddMore quantity
                                  (prod_stock product - ci_quantity existingCartItem)), d)
                     else (Inr (existingCartItem\<lparr>ci_quantity := newQuantity\<rparr>, product),
                           d\<lparr>db_cartItems :=
                               map (\<lambda>c. if ci_id c = ci_id existingCartItem
                                         then c\<lparr>ci_quantity := newQuantity\<rparr> else c)
                                   (db_cartItems d)\<rparr>))
             | None \<Rightarrow>
                 (let cartItem = \<lparr>ci_id = newId, ci_userId = userId,
                                  ci_productId = productId, ci_quantity = quantity\<rparr>
                  in if newId \<in> set (map ci_id (db_cartItems d))
                     then (Inl UniqueConstraintViolation, d)
                     else (Inr (cartItem, product),
                           d\<lparr>db_cartItems := db_cartItems d @ [cartItem]\<rparr>))))"

text \<open>
  The quantity of a product in a user's cart: that of the row with the unique key
  \<^verbatim>\<open>(userId, productId)\<close>, and 0 when there is no such row.
\<close>

definition cartQuantity :: "string \<Rightarrow> string \<Rightarrow> db \<Rightarrow> int" where
  "cartQuantity userId productId d =
     (case find (\<lambda>c. ci_userId c = userId \<and> ci_productId c = productId) (db_cartItems d) of
        None \<Rightarrow> 0
      | Some c \<Rightarrow> ci_quantity c)"

subsection \<open>updateCartItem\<close>

definition updateCartItem ::
  "string \<Rightarrow> string \<Rightarrow> int \<Rightarrow> db \<Rightarrow> (error + cartItem \<times> product) \<times> db" where
  "updateCartItem userId cartItemId quantity d =
     (if quantity \<le> 0 then (Inl QuantityMustBePositive, d)
      else
        (case find (\<lambda>c. ci_id c = cartItemId \<and> ci_userId c = userId) (db_cartItems d) of
           None \<Rightarrow> (Inl CartItemNotFound, d)
         | Some cartItem \<Rightarrow>
             (case product_findUnique (ci_productId cartItem) d of
                None \<Rightarrow> (Inl InconsistentQueryResult, d)
              | Some product \<Rightarrow>
                  if quantity > prod_stock product
                  then (Inl (OnlyItemsAvailable (prod_stock product)), d)
                  else (Inr (cartItem\<lparr>ci_quantity := quantity\<rparr>, product),
                        d\<lparr>db_cartItems :=
                            map (\<lambda>c. if ci_id c = cartItemId
                                      then c\<lparr>ci_quantity := quantity\<rparr> else c)
                                (db_cartItems d)\<rparr>))))"

subsection \<open>validateCart\<close>

record CartValidation =
  cv_isValid :: bool
  cv_errors :: "cartError list"
  cv_cart :: CartSummary

text \<open>The stock loop of \<^verbatim>\<open>validateCart\<close>: one message per item that exceeds its stock.\<close>

fun stockErrors :: "(cartItem \<times> product) list \<Rightarrow> cartError list" where
  "stockErrors [] = []"
| "stockErrors (item # rest) =
     (if prod_stock (snd item) < ci_quantity (fst item)
      then OnlyAvailableButRequested (prod_name (snd item)) (prod_stock (snd item))
             (ci_quantity (fst item)) # stockErrors rest
      else stockErrors rest)"

definition validateCart :: "string \<Rightarrow> db \<Rightarrow> error + CartValidation" where
  "validateCart userId d =
     (case cartItem_findMany userId d of
        Inl e \<Rightarrow> Inl e
      | Inr cartItems \<Rightarrow>
          (let errors = (if length cartItems = 0 then [CartIsEmptyMsg] else [])
                          @ stockErrors cartItems;
               cart = calculateCartSummary cartItems
           in Inr \<lparr> cv_isValid = (length errors = 0), cv_errors = errors, cv_cart = cart \<rparr>))"

subsection \<open>syncCartWithStock\<close>

text \<open>
  The loop runs over the rows read at the start; each \<^verbatim>\<open>delete\<close> and \<^verbatim>\<open>update\<close>
  addresses its row by \<^verbatim>\<open>id\<close>. An adjusted item is reported as its product name and the
  quantity it was reduced to.
\<close>

definition cartItem_delete :: "string \<Rightarrow> db \<Rightarrow> db" where
  "cartItem_delete cartItemId d =
     d\<lparr>db_cartItems := filter (\<lambda>c. ci_id c \<noteq> cartItemId) (db_cartItems d)\<rparr>"

definition cartItem_updateQuantity :: "string \<Rightarrow> int \<Rightarrow> db \<Rightarrow> db" where
  "cartItem_updateQuantity cartItemId q d =
     d\<lparr>db_cartItems :=
         map (\<lambda>c. if ci_id c = cartItemId then c\<lparr>ci_quantity := q\<rparr> else c) (db_cartItems d)\<rparr>"

fun syncLoop ::
  "(cartItem \<times> product) list \<Rightarrow> string list \<Rightarrow> (string \<times> int) list \<Rightarrow> db
     \<Rightarrow> (string list \<times> (string \<times> int) list) \<times> db" where
  "syncLoop [] removedItems updatedItems d = ((removedItems, updatedItems), d)"
| "syncLoop (item # rest) removedItems updatedItems d =
     (if prod_stock (snd item) = 0
      then syncLoop rest (removedItems @ [prod_name (snd item)]) updatedItems
             (cartItem_delete (ci_id (fst item)) d)
      else if ci_quantity (fst item) > prod_stock (snd item)
      then syncLoop rest removedItems
             (updatedItems @ [(prod_name (snd item), prod_stock (snd item))])
             (cartItem_updateQuantity (ci_id (fst item)) (prod_stock (snd item)) d)
      else syncLoop rest removedItems updatedItems d)"

definition syncCartWithStock ::
  "string \<Rightarrow> db \<Rightarrow> (error + string list \<times> (string \<times> int) list) \<times> db" where
  "syncCartWithStock userId d =
     (case cartItem_findMany userId d of
        Inl e \<Rightarrow> (Inl e, d)
      | Inr cartItems \<Rightarrow>
          (case syncLoop cartItems [] [] d of (r, d') \<Rightarrow> (Inr r, d')))"

subsection \<open>CartController.addToCart\<close>

text \<open>
  A response is its HTTP status with either the data or the message. \<^verbatim>\<open>req.user\<close> is
  absent on an unauthenticated request; the body's \<^verbatim>\<open>quantity\<close> defaults to 1.
\<close>

datatype message = Literal string | ErrorMessage error

datatype 'a response = Success nat 'a | Failure nat message

record reqUser =
  req_userId :: string
  req_role :: string

text \<open>
  The \<^verbatim>\<open>catch\<close> block: \<^verbatim>\<open>'Product not found'\<close> is a 404; a message that contains
  \<^verbatim>\<open>stock\<close> or \<^verbatim>\<open>available\<close> is a 400; everything else is a 500.
\<close>

fun addToCart_catch :: "error \<Rightarrow> 'a response" where
  "addToCart_catch ProductNotFound = Failure 404 (Literal ''Product not found'')"
| "addToCart_catch (OnlyItemsAvailable n) = Failure 400 (ErrorMessage (OnlyItemsAvailable n))"
| "addToCart_catch (CannotAddMore q n) = Failure 400 (ErrorMessage (CannotAddMore q n))"
| "addToCart_catch e = Failure 500 (Literal ''Failed to add item to cart'')"

definition CartController_addToCart ::
  "string \<Rightarrow> reqUser option \<Rightarrow> string \<Rightarrow> int option \<Rightarrow> db
     \<Rightarrow> (cartItem \<times> product) response \<times> db" where
  "CartController_addToCart newId user productId bodyQuantity d =
     (let quantity = (case bodyQuantity of None \<Rightarrow> 1 | Some q \<Rightarrow> q)
      in case user of
           None \<Rightarrow> (Failure 401 (Literal ''Authentication required''), d)
         | Some u \<Rightarrow>
             if req_userId u = [] then (Failure 401 (Literal ''Authentication required''), d)
             else if productId = [] then (Failure 400 (Literal ''Product ID is required''), d)
             else if quantity \<le> 0
             then (Failure 400 (Literal ''Quantity must be a positive integer''), d)
             else
               (case addToCart newId (req_userId u) productId quantity d of
                  (Inr cartItem, d') \<Rightarrow> (Success 201 cartItem, d')
                | (Inl e, d') \<Rightarrow> (addToCart_catch e, d')))"

section \<open>Order service\<close>

subsection \<open>Writes inside a transaction\<close>

text \<open>
  The statements that \<^verbatim>\<open>createOrder\<close> and \<^verbatim>\<open>cancelOrder\<close> send through the
  transaction client \<^verbatim>\<open>tx\<close>. A \<^verbatim>\<open>create\<close> fails on a primary key that exists, an
  \<^verbatim>\<open>update\<close> fails when its \<^verbatim>\<open>where\<close> matches no row.
\<close>

datatype dbWrite =
  OrderCreate order
  | OrderItemCreate orderItem
  | ProductStockDecrement string int
  | ProductStockIncrement string int
  | CartItemDeleteMany string
  | OrderUpdateStatus string OrderStatus

fun applyWrite :: "dbWrite \<Rightarrow> db \<Rightarrow> error + db" where
  "applyWrite (OrderCreate ord) d =
     (if ord_id ord \<in> set (map ord_id (db_orders d)) then Inl UniqueConstraintViolation
      else Inr (d\<lparr>db_orders := db_orders d @ [ord]\<rparr>))"
| "applyWrite (OrderItemCreate oi) d = Inr (d\<lparr>db_orderItems := db_orderItems d @ [oi]\<rparr>)"
| "applyWrite (ProductStockDecrement productId q) d =
     (if productId \<in> set (map prod_id (db_products d))
      then Inr (d\<lparr>db_products :=
                   map (\<lambda>p. if prod_id p = productId then p\<lparr>prod_stock := prod_stock p - q\<rparr> else p)
                       (db_products d)\<rparr>)
      else Inl RecordNotFound)"
| "applyWrite (ProductStockIncrement productId q) d =
     (if productId \<in> set (map prod_id (db_products d))
      then Inr (d\<lparr>db_products :=
                   map (\<lambda>p. if prod_id p = productId then p\<lparr>prod_stock := prod_stock p + q\<rparr> else p)
                       (db_products d)\<rparr>)
      else Inl RecordNotFound)"
| "applyWrite (CartItemDeleteMany userId) d =
     Inr (d\<lparr>db_cartItems := filter (\<lambda>c. ci_userId c \<noteq> userId) (db_cartItems d)\<rparr>)"
| "applyWrite (OrderUpdateStatus orderId status) d =
     (if orderId \<in> set (map ord_id (db_orders d))
      then Inr (d\<lparr>db_orders :=
                   map (\<lambda>ord. if ord_id ord = orderId then ord\<lparr>ord_status := status\<rparr> else ord)
                       (db_orders d)\<rparr>)
      else Inl RecordNotFound)"

text \<open>
  Any statement may also fail for reasons outside the tables (a lost connection, a
  constraint of the schema): \<open>fails\<close> says which statements the database rejects.
\<close>

definition tx_exec :: "(dbWrite \<Rightarrow> bool) \<Rightarrow> dbWrite \<Rightarrow> db \<Rightarrow> error + db" where
  "tx_exec fails w tx = (if fails w then Inl DatabaseError else applyWrite w tx)"

text \<open>
  \<^verbatim>\<open>Promise.all\<close> over the mapped statements: they are issued in the order of the list,
  and the first one that fails rejects the whole.
\<close>

fun tx_execAll :: "(dbWrite \<Rightarrow> bool) \<Rightarrow> dbWrite list \<Rightarrow> db \<Rightarrow> error + db" where
  "tx_execAll fails [] tx = Inr tx"
| "tx_execAll fails (w # ws) tx =
     (case tx_exec fails w tx of
        Inl e \<Rightarrow> Inl e
      | Inr tx' \<Rightarrow> tx_execAll fails ws tx')"

text \<open>
  \<^verbatim>\<open>prisma.$transaction\<close>: the callback runs on the transaction's view of the tables; its
  writes are committed when it returns and discarded when it throws.
\<close>

definition transaction :: "(db \<Rightarrow> error + 'a \<times> db) \<Rightarrow> db \<Rightarrow> (error + 'a) \<times> db" where
  "transaction body d =
     (case body d of
        Inl e \<Rightarrow> (Inl e, d)
      | Inr (r, d') \<Rightarrow> (Inr r, d'))"

subsection \<open>Reading an order\<close>

text \<open>An order is returned with its items (\<^verbatim>\<open>include: { items: ... }\<close>).\<close>

definition order_items :: "string \<Rightarrow> db \<Rightarrow> orderItem list" where
  "order_items orderId d = filter (\<lambda>i. oi_orderId i = orderId) (db_orderItems d)"

definition order_findUnique :: "(order \<Rightarrow> bool) \<Rightarrow> db \<Rightarrow> (order \<times> orderItem list) option" where
  "order_findUnique whereClause d =
     (case find whereClause (db_orders d) of
        None \<Rightarrow> None
      | Some ord \<Rightarrow> Some (ord, order_items (ord_id ord) d))"

subsection \<open>createOrder\<close>

text \<open>The unit price written to an order item; \<^verbatim>\<open>null\<close> and \<open>0\<close> are falsy.\<close>

definition orderItemPrice :: "product \<Rightarrow> rat" where
  "orderItemPrice p =
     (case prod_discount p of
        None \<Rightarrow> prod_price p
      | Some d \<Rightarrow> if d = 0 then prod_price p else prod_price p * (1 - d / 100))"

text \<open>The \<^verbatim>\<open>data\<close> of \<^verbatim>\<open>tx.orderItem.create\<close> for one cart item.\<close>

definition orderItemData :: "string \<Rightarrow> cartItem \<times> product \<Rightarrow> orderItem" where
  "orderItemData orderId cartItem =
     \<lparr> oi_orderId = orderId,
       oi_productId = ci_productId (fst cartItem),
       oi_quantity = ci_quantity (fst cartItem),
       oi_price = orderItemPrice (snd cartItem) \<rparr>"

definition shippingAddressOf :: "CreateOrderData \<Rightarrow> string list" where
  "shippingAddressOf orderData =
     [firstName orderData, lastName orderData, email orderData, phone orderData,
      address orderData, city orderData,
      (case postalCode orderData of None \<Rightarrow> [] | Some pc \<Rightarrow> pc)]"

definition createOrderTx ::
  "(dbWrite \<Rightarrow> bool) \<Rightarrow> string \<Rightarrow> string \<Rightarrow> CreateOrderData \<Rightarrow> CartSummary \<Rightarrow> db
     \<Rightarrow> error + (order \<times> orderItem list) option \<times> db" where
  "createOrderTx fails newId userId orderData cart tx =
     (let newOrder =
            \<lparr> ord_id = newId, ord_userId = userId, ord_status = PENDING,
              ord_totalAmount = cs_total cart,
              ord_shippingAddress = shippingAddressOf orderData,
              ord_paymentMethod = paymentMethod orderData,
              ord_paymentStatus = (if paymentMethod orderData = Cash
                                   then PAYMENT_PENDING else PAYMENT_PENDING) \<rparr>
      in case tx_exec fails (OrderCreate newOrder) tx of
           Inl e \<Rightarrow> Inl e
         | Inr tx1 \<Rightarrow>
        (case tx_execAll fails
                (map (\<lambda>cartItem. OrderItemCreate (orderItemData (ord_id newOrder) cartItem))
                     (cs_items cart)) tx1 of
           Inl e \<Rightarrow> Inl e
         | Inr tx2 \<Rightarrow>
        (case tx_execAll fails
                (map (\<lambda>cartItem. ProductStockDecrement (ci_productId (fst cartItem))
                                    (ci_quantity (fst cartItem)))
                     (cs_items cart)) tx2 of
           Inl e \<Rightarrow> Inl e
         | Inr tx3 \<Rightarrow>
        (case tx_exec fails (CartItemDeleteMany userId) tx3 of
           Inl e \<Rightarrow> Inl e
         | Inr tx4 \<Rightarrow>
             Inr (order_findUnique (\<lambda>ord. ord_id ord = ord_id newOrder) tx4, tx4)))))"

definition createOrder ::
  "(dbWrite \<Rightarrow> bool) \<Rightarrow> string \<Rightarrow> string \<Rightarrow> CreateOrderData \<Rightarrow> db
     \<Rightarrow> (error + order \<times> orderItem list) \<times> db" where
  "createOrder fails newId userId orderData d =
     (case validateCart userId d of
        Inl e \<Rightarrow> (Inl e, d)
      | Inr cartValidation \<Rightarrow>
          if \<not> cv_isValid cartValidation
          then (Inl (CartValidationFailed (cv_errors cartValidation)), d)
          else
            (let cart = cv_cart cartValidation
             in if length (cs_items cart) = 0 then (Inl CartIsEmpty, d)
                else
                  (case transaction (createOrderTx fails newId userId orderData cart) d of
                     (Inl e, d') \<Rightarrow> (Inl e, d')
                   | (Inr None, d') \<Rightarrow> (Inl FailedToCreateOrder, d')
                   | (Inr (Some ord), d') \<Rightarrow> (Inr ord, d'))))"

subsection \<open>getOrderById and OrderController.getOrder\<close>

text \<open>\<^verbatim>\<open>if (userId)\<close>: an absent or empty \<^verbatim>\<open>userId\<close> adds no owner filter.\<close>

definition getOrderById :: "string \<Rightarrow> string option \<Rightarrow> db \<Rightarrow> (order \<times> orderItem list) option" where
  "getOrderById orderId scopeUserId d =
     (let whereClause =
            (case scopeUserId of
               None \<Rightarrow> (\<lambda>ord. ord_id ord = orderId)
             | Some u \<Rightarrow>
                 if u = [] then (\<lambda>ord. ord_id ord = orderId)
                 else (\<lambda>ord. ord_id ord = orderId \<and> ord_userId ord = u))
      in order_findUnique whereClause d)"

definition OrderController_getOrder ::
  "reqUser option \<Rightarrow> string \<Rightarrow> db \<Rightarrow> (order \<times> orderItem list) response" where
  "OrderController_getOrder user orderId d =
     (case user of
        None \<Rightarrow> Failure 401 (Literal ''Authentication required'')
      | Some u \<Rightarrow>
          (let isAdmin = (req_role u = ''ADMIN'')
           in if req_userId u = [] then Failure 401 (Literal ''Authentication required'')
              else
                (case getOrderById orderId (if isAdmin then None else Some (req_userId u)) d of
                   None \<Rightarrow> Failure 404 (Literal ''Order not found'')
                 | Some ord \<Rightarrow> Success 200 ord)))"

subsection \<open>updateOrderStatus\<close>

fun validTransitions :: "OrderStatus \<Rightarrow> OrderStatus list" where
  "validTransitions PENDING = [CONFIRMED, CANCELLED]"
| "validTransitions CONFIRMED = [PROCESSING, CANCELLED]"
| "validTransitions PROCESSING = [SHIPPED, CANCELLED]"
| "validTransitions SHIPPED = [DELIVERED, RETURNED]"
| "validTransitions DELIVERED = [RETURNED]"
| "validTransitions CANCELLED = []"
| "validTransitions RETURNED = []"

definition order_setStatus :: "string \<Rightarrow> OrderStatus \<Rightarrow> db \<Rightarrow> db" where
  "order_setStatus orderId status d =
     d\<lparr>db_orders :=
         map (\<lambda>ord. if ord_id ord = orderId then ord\<lparr>ord_status := status\<rparr> else ord)
             (db_orders d)\<rparr>"

definition updateOrderStatus ::
  "string \<Rightarrow> OrderStatus \<Rightarrow> string option \<Rightarrow> db \<Rightarrow> (error + order \<times> orderItem list) \<times> db" where
  "updateOrderStatus orderId status adminUserId d =
     (case find (\<lambda>ord. ord_id ord = orderId) (db_orders d) of
        None \<Rightarrow> (Inl OrderNotFound, d)
      | Some currentOrder \<Rightarrow>
          (let currentStatus = ord_status currentOrder;
               allowedTransitions = validTransitions currentStatus
           in if status \<notin> set allowedTransitions
              then (Inl (InvalidStatusTransition currentStatus status), d)
              else (Inr (currentOrder\<lparr>ord_status := status\<rparr>, order_items orderId d),
                    order_setStatus orderId status d)))"

subsection \<open>cancelOrder\<close>

definition cancelOrder ::
  "(dbWrite \<Rightarrow> bool) \<Rightarrow> string \<Rightarrow> string option \<Rightarrow> db
     \<Rightarrow> (error + order \<times> orderItem list) \<times> db" where
  "cancelOrder fails orderId requestingUserId d =
     (case order_findUnique (\<lambda>ord. ord_id ord = orderId) d of
        None \<Rightarrow> (Inl OrderNotFound, d)
      | Some (ord, orderItems) \<Rightarrow>
          if (case requestingUserId of
                None \<Rightarrow> False
              | Some u \<Rightarrow> u \<noteq> [] \<and> ord_userId ord \<noteq> u)
          then (Inl UnauthorizedToCancel, d)
          else
            (let cancellableStatuses = [PENDING, CONFIRMED]
             in if ord_status ord \<notin> set cancellableStatuses
                then (Inl (CannotCancelOrder (ord_status ord)), d)
                else
                  transaction
                    (\<lambda>tx.
                       case tx_execAll fails
                              (map (\<lambda>item. ProductStockIncrement (oi_productId item)
                                              (oi_quantity item))
                                   orderItems) tx of
                         Inl e \<Rightarrow> Inl e
                       | Inr tx1 \<Rightarrow>
                           (case tx_exec fails (OrderUpdateStatus orderId CANCELLED) tx1 of
                              Inl e \<Rightarrow> Inl e
                            | Inr tx2 \<Rightarrow>
                                Inr ((ord\<lparr>ord_status := CANCELLED\<rparr>, orderItems), tx2)))
                    d))"

subsection \<open>Quantities per product\<close>

text \<open>
  The quantity that a list of (product id, quantity) lines holds of one product: the
  sum over the lines that name it.
\<close>

definition qtyFor :: "string \<Rightarrow> (string \<times> int) list \<Rightarrow> int" where
  "qtyFor productId lines = (\<Sum>l\<leftarrow>filter (\<lambda>l. fst l = productId) lines. snd l)"

section \<open>Example data\<close>

text \<open>
  Product A has stock 5, price 100 and discount 0; product B has stock 3 and costs 0.25
  with a discount of 50 percent. User \<open>u1\<close> has three of A and one of B in the cart;
  user \<open>u3\<close> has five of B, more than the stock. Order \<open>o1\<close> of user \<open>u2\<close> is
  CONFIRMED and holds three of A.
\<close>

definition exProductA :: product where
  "exProductA = \<lparr> prod_id = ''A'', prod_name = ''A'', prod_price = 100, prod_stock = 5,
                   prod_discount = Some 0 \<rparr>"

definition exProductB :: product where
  "exProductB = \<lparr> prod_id = ''B'', prod_name = ''B'', prod_price = 1 / 4, prod_stock = 3,
                   prod_discount = Some 50 \<rparr>"

definition exCartItemA :: cartItem where
  "exCartItemA = \<lparr> ci_id = ''c1'', ci_userId = ''u1'', ci_productId = ''A'', ci_quantity = 3 \<rparr>"

definition exCartItemB :: cartItem where
  "exCartItemB = \<lparr> ci_id = ''c2'', ci_userId = ''u1'', ci_productId = ''B'', ci_quantity = 1 \<rparr>"

definition exCartItemStale :: cartItem where
  "exCartItemStale = \<lparr> ci_id = ''c3'', ci_userId = ''u3'', ci_productId = ''B'', ci_quantity = 5 \<rparr>"

definition exOrder :: order where
  "exOrder = \<lparr> ord_id = ''o1'', ord_userId = ''u2'', ord_status = CONFIRMED,
                ord_totalAmount = 300, ord_shippingAddress = [],
                ord_paymentMethod = Cash, ord_paymentStatus = PAYMENT_PENDING \<rparr>"

definition exOrderItem :: orderItem where
  "exOrderItem = \<lparr> oi_orderId = ''o1'', oi_productId = ''A'', oi_quantity = 3, oi_price = 100 \<rparr>"

definition exDb :: db where
  "exDb = \<lparr> db_products = [exProductA, exProductB], db_cartItems = [exCartItemA, exCartItemB, exCartItemStale],
             db_orders = [exOrder], db_orderItems = [exOrderItem] \<rparr>"

definition exOrderData :: CreateOrderData where
  "exOrderData = \<lparr> firstName = ''F'', lastName = ''L'', email = ''f@l.uz'', phone = ''1'',
                    address = ''S'', city = ''T'', postalCode = None, paymentMethod = Cash \<rparr>"

text \<open>No statement is rejected; only the last statement of checkout is rejected.\<close>

definition noFaults :: "dbWrite \<Rightarrow> bool" where
  "noFaults w = False"

definition failOnClearCart :: "dbWrite \<Rightarrow> bool" where
  "failOnClearCart w = (case w of CartItemDeleteMany u \<Rightarrow> True | _ \<Rightarrow> False)"

text \<open>What checkout of \<open>u1\<close>'s cart under the new order identifier \<open>o2\<close> creates.\<close>

definition exNewOrder :: order where
  "exNewOrder = \<lparr> ord_id = ''o2'', ord_userId = ''u1'', ord_status = PENDING,
                   ord_totalAmount = 30013 / 100,
                   ord_shippingAddress = [''F'', ''L'', ''f@l.uz'', ''1'', ''S'', ''T'', []],
                   ord_paymentMethod = Cash, ord_paymentStatus = PAYMENT_PENDING \<rparr>"

definition exNewItemA :: orderItem where
  "exNewItemA = \<lparr> oi_orderId = ''o2'', oi_productId = ''A'', oi_quantity = 3, oi_price = 100 \<rparr>"

definition exNewItemB :: orderItem where
  "exNewItemB = \<lparr> oi_orderId = ''o2'', oi_productId = ''B'', oi_quantity = 1, oi_price = 1 / 8 \<rparr>"

definition exDbAfterCheckout :: db where
  "exDbAfterCheckout =
     \<lparr> db_products = [exProductA\<lparr>prod_stock := 2\<rparr>, exProductB\<lparr>prod_stock := 2\<rparr>],
       db_cartItems = [exCartItemStale],
       db_orders = [exOrder, exNewOrder],
       db_orderItems = [exOrderItem, exNewItemA, exNewItemB] \<rparr>"

text \<open>The tables after \<open>syncCartWithStock\<close> for user \<open>u3\<close>: the five of B are reduced to three.\<close>

definition exDbSynced :: db where
  "exDbSynced =
     exDb\<lparr>db_cartItems := [exCartItemA, exCartItemB, exCartItemStale\<lparr>ci_quantity := 3\<rparr>]\<rparr>"

text \<open>The tables after order \<open>o1\<close> has been cancelled: A is back at 5 + 3.\<close>

definition exDbAfterCancel :: db where
  "exDbAfterCancel =
     exDb\<lparr> db_products := [exProductA\<lparr>prod_stock := 8\<rparr>, exProductB],
           db_orders := [exOrder\<lparr>ord_status := CANCELLED\<rparr>] \<rparr>"

section \<open>Properties of the cart summary\<close>


lemma Math_round_nearest:
  "of_int (Math_round x) \<le> x + 1 / 2" "x - 1 / 2 < of_int (Math_round x)"
  unfolding Math_round_def by linarith+

text \<open>
  \<open>round2\<close> rounds to two decimal places, half up: its value is a whole number of
  hundredths, at most half a hundredth away from its argument, and a tie goes to the
  larger neighbour.
\<close>

lemma round2_nearest_hundredth:
  "(\<exists>k::int. round2 x = of_int k / 100) \<and> x - 1 / 200 < round2 x \<and> round2 x \<le> x + 1 / 200"
  using Math_round_nearest[of "x * 100"] unfolding round2_def
  by (auto simp: field_simps)

lemma round2_tie_up: "round2 ((of_int k + 1 / 2) / 100) = (of_int k + 1) / 100"
proof -
  have "(of_int k + 1 / 2) / 100 * 100 + 1 / 2 = (of_int (k + 1) :: rat)"
    by (simp add: field_simps)
  then have "Math_round ((of_int k + 1 / 2) / 100 * 100) = k + 1"
    unfolding Math_round_def by (simp only: floor_of_int)
  then show ?thesis
    unfolding round2_def by simp
qed



text \<open>
  The total is rounded from the unrounded difference. Taking the difference of the two
  returned amounts, which are rounded already, and rounding that can give another cent:
  here the discount 0.125 is returned as 0.13 and the total 300.125 as 300.13, while
  300.25 - 0.13 is 300.12.
\<close>

lemma calculateCartSummary_total_not_from_rounded_fields:
  "cs_total (calculateCartSummary [(exCartItemA, exProductA), (exCartItemB, exProductB)])
     = 30013 / 100
   \<and> round2 (cs_subtotal (calculateCartSummary [(exCartItemA, exProductA), (exCartItemB, exProductB)])
               - cs_discount (calculateCartSummary [(exCartItemA, exProductA), (exCartItemB, exProductB)]))
     = 30012 / 100"
  by code_simp

section \<open>Properties of the order status machine\<close>

lemma find_map_setStatus:
  "find (\<lambda>ord. ord_id ord = orderId) xs = Some cur \<Longrightarrow>
   find (\<lambda>ord. ord_id ord = orderId)
     (map (\<lambda>ord. if ord_id ord = orderId then ord\<lparr>ord_status := status\<rparr> else ord) xs)
     = Some (cur\<lparr>ord_status := status\<rparr>)"
  by (induction xs) (auto split: if_splits)

text \<open>
  C3. For an order that exists, \<open>updateOrderStatus\<close> succeeds exactly when the pair of
  its current status and the requested status is in the transition table; it then
  stores the requested status. Every other request, in particular every request on a
  CANCELLED or RETURNED order, fails with \<open>InvalidStatusTransition\<close> carrying the
  current and the requested status, and the tables are unchanged.
\<close>

theorem updateOrderStatus_transition_table:
  assumes "find (\<lambda>ord. ord_id ord = orderId) (db_orders d) = Some cur"
  shows "updateOrderStatus orderId status admin d =
     (if (ord_status cur, status) \<in>
           {(PENDING, CONFIRMED), (PENDING, CANCELLED),
            (CONFIRMED, PROCESSING), (CONFIRMED, CANCELLED),
            (PROCESSING, SHIPPED), (PROCESSING, CANCELLED),
            (SHIPPED, DELIVERED), (SHIPPED, RETURNED),
            (DELIVERED, RETURNED)}
      then (Inr (cur\<lparr>ord_status := status\<rparr>, order_items orderId d),
            order_setStatus orderId status d)
      else (Inl (InvalidStatusTransition (ord_status cur) status), d))
    \<and> find (\<lambda>ord. ord_id ord = orderId) (db_orders (order_setStatus orderId status d))
        = Some (cur\<lparr>ord_status := status\<rparr>)"
proof
  show "updateOrderStatus orderId status admin d =
     (if (ord_status cur, status) \<in>
           {(PENDING, CONFIRMED), (PENDING, CANCELLED),
            (CONFIRMED, PROCESSING), (CONFIRMED, CANCELLED),
            (PROCESSING, SHIPPED), (PROCESSING, CANCELLED),
            (SHIPPED, DELIVERED), (SHIPPED, RETURNED),
            (DELIVERED, RETURNED)}
      then (Inr (cur\<lparr>ord_status := status\<rparr>, order_items orderId d),
            order_setStatus orderId status d)
      else (Inl (InvalidStatusTransition (ord_status cur) status), d))"
    using assms unfolding updateOrderStatus_def
    by (cases "ord_status cur"; cases status; simp)
  show "find (\<lambda>ord. ord_id ord = orderId) (db_orders (order_setStatus orderId status d))
        = Some (cur\<lparr>ord_status := status\<rparr>)"
    using assms by (simp add: order_setStatus_def find_map_setStatus)
qed

theorem updateOrderStatus_transition_table_witness:
  "find (\<lambda>ord. ord_id ord = ''o1'') (db_orders exDb) = Some exOrder
   \<and> updateOrderStatus ''o1'' PROCESSING None exDb
       = (Inr (exOrder\<lparr>ord_status := PROCESSING\<rparr>, [exOrderItem]),
          exDb\<lparr>db_orders := [exOrder\<lparr>ord_status := PROCESSING\<rparr>]\<rparr>)
   \<and> updateOrderStatus ''o1'' DELIVERED None exDb
       = (Inl (InvalidStatusTransition CONFIRMED DELIVERED), exDb)"
proof -
  have h: "find (\<lambda>ord. ord_id ord = ''o1'') (db_orders exDb) = Some exOrder"
    by (simp add: exDb_def exOrder_def)
  show ?thesis
    using h updateOrderStatus_transition_table[OF h, of PROCESSING None]
      updateOrderStatus_transition_table[OF h, of DELIVERED None]
    by (simp add: order_setStatus_def order_items_def exDb_def exOrder_def exOrderItem_def)
qed

section \<open>Properties of the cart service\<close>

lemma find_cart_map:
  "find (\<lambda>c. ci_userId c = u \<and> ci_productId c = p) xs = Some e \<Longrightarrow>
   find (\<lambda>c. ci_userId c = u \<and> ci_productId c = p)
     (map (\<lambda>c. if ci_id c = ci_id e then c\<lparr>ci_quantity := q\<rparr> else c) xs)
    = Some (e\<lparr>ci_quantity := q\<rparr>)"
  by (induction xs) (auto split: if_splits)

lemma find_cart_append_new:
  "find (\<lambda>c. ci_userId c = u \<and> ci_productId c = p) xs = None \<Longrightarrow>
   find (\<lambda>c. ci_userId c = u \<and> ci_productId c = p)
     (xs @ [\<lparr>ci_id = i, ci_userId = u, ci_productId = p, ci_quantity = q\<rparr>])
    = Some \<lparr>ci_id = i, ci_userId = u, ci_productId = p, ci_quantity = q\<rparr>"
  by (induction xs) (auto split: if_splits)


lemma addToCart_products:
  "db_products (snd (addToCart newId userId productId quantity d)) = db_products d"
  by (simp add: addToCart_def Let_def split: option.splits)

lemma addToCart_failure_unchanged:
  "addToCart newId userId productId quantity d = (Inl e, d') \<Longrightarrow> d' = d"
  by (auto simp: addToCart_def Let_def split: option.splits if_splits)

text \<open>
  Whatever the cart held before, a successful \<open>addToCart\<close> leaves the row of the
  product with a quantity that is at most the product's stock.
\<close>

lemma addToCart_success_quantity:
  assumes "addToCart newId userId productId quantity d = (Inr (row, p), d')"
  shows "product_findUnique productId d' = Some p
       \<and> find (\<lambda>c. ci_userId c = userId \<and> ci_productId c = productId) (db_cartItems d') = Some row
       \<and> ci_quantity row = cartQuantity userId productId d + quantity
       \<and> ci_quantity row \<le> prod_stock p"
  using assms
  by (auto simp: addToCart_def cartQuantity_def product_findUnique_def Let_def find_cart_map find_cart_append_new
      split: option.splits if_splits)



text \<open>
  C10. \<open>addToCart\<close> has no check that the quantity is positive. For a product with
  non-negative stock and a quantity of zero or less that the stock check lets through
  (always the case when the user has no row for the product yet), the call succeeds and
  the cart row holds the existing quantity plus the requested one: for a new row that
  is the requested non-positive quantity itself. The error that \<open>updateCartItem\<close>
  raises for such a quantity is never raised here. The controller rejects the request
  with status 400 before it reaches the service.
\<close>

theorem addToCart_accepts_nonpositive_quantity:
  assumes prod: "product_findUnique productId d = Some p"
    and stock: "0 \<le> prod_stock p"
    and qty: "quantity \<le> 0"
    and permits: "cartQuantity userId productId d + quantity \<le> prod_stock p"
    and fresh: "newId \<notin> set (map ci_id (db_cartItems d))"
  shows
    "(\<exists>row d'. addToCart newId userId productId quantity d = (Inr (row, p), d')
        \<and> find (\<lambda>c. ci_userId c = userId \<and> ci_productId c = productId) (db_cartItems d')
            = Some row
        \<and> ci_quantity row = cartQuantity userId productId d + quantity
        \<and> (find (\<lambda>c. ci_userId c = userId \<and> ci_productId c = productId) (db_cartItems d) = None
             \<longrightarrow> ci_quantity row = quantity \<and> ci_quantity row \<le> 0))
     \<and> fst (addToCart newId userId productId quantity d) \<noteq> Inl QuantityMustBePositive
     \<and> (req_userId u \<noteq> [] \<and> productId \<noteq> [] \<longrightarrow>
          CartController_addToCart newId (Some u) productId (Some quantity) d
            = (Failure 400 (Literal ''Quantity must be a positive integer''), d))"
proof -
  have a: "\<exists>row d'. addToCart newId userId productId quantity d = (Inr (row, p), d')
        \<and> find (\<lambda>c. ci_userId c = userId \<and> ci_productId c = productId) (db_cartItems d')
            = Some row
        \<and> ci_quantity row = cartQuantity userId productId d + quantity
        \<and> (find (\<lambda>c. ci_userId c = userId \<and> ci_productId c = productId) (db_cartItems d) = None
             \<longrightarrow> ci_quantity row = quantity \<and> ci_quantity row \<le> 0)"
    using assms
    by (auto simp: addToCart_def cartQuantity_def Let_def find_cart_map find_cart_append_new
        split: option.splits)
  then have b: "fst (addToCart newId userId productId quantity d) \<noteq> Inl QuantityMustBePositive"
    by auto
  have c: "req_userId u \<noteq> [] \<and> productId \<noteq> [] \<longrightarrow>
          CartController_addToCart newId (Some u) productId (Some quantity) d
            = (Failure 400 (Literal ''Quantity must be a positive integer''), d)"
    using qty by (simp add: CartController_addToCart_def)
  from a b c show ?thesis by blast
qed

theorem addToCart_accepts_nonpositive_quantity_witness:
  "product_findUnique ''B'' exDb = Some exProductB
   \<and> 0 \<le> prod_stock exProductB
   \<and> (-2::int) \<le> 0
   \<and> cartQuantity ''u2'' ''B'' exDb + (-2) \<le> prod_stock exProductB
   \<and> ''c9'' \<notin> set (map ci_id (db_cartItems exDb))
   \<and> addToCart ''c9'' ''u2'' ''B'' (-2) exDb
       = (Inr (\<lparr>ci_id = ''c9'', ci_userId = ''u2'', ci_productId = ''B'', ci_quantity = -2\<rparr>,
               exProductB),
          exDb\<lparr>db_cartItems := db_cartItems exDb
                  @ [\<lparr>ci_id = ''c9'', ci_userId = ''u2'', ci_productId = ''B'',
                       ci_quantity = -2\<rparr>]\<rparr>)
   \<and> CartController_addToCart ''c9'' (Some \<lparr>req_userId = ''u2'', req_role = ''USER''\<rparr>)
         ''B'' (Some (-2)) exDb
       = (Failure 400 (Literal ''Quantity must be a positive integer''), exDb)"
proof -
  have h1: "product_findUnique ''B'' exDb = Some exProductB"
    by (simp add: product_findUnique_def exDb_def exProductA_def exProductB_def)
  have h2: "0 \<le> prod_stock exProductB"
    by (simp add: exProductB_def)
  have h3: "(-2::int) \<le> 0"
    by simp
  have h4: "cartQuantity ''u2'' ''B'' exDb + (-2) \<le> prod_stock exProductB"
    by (simp add: cartQuantity_def exDb_def exCartItemA_def exCartItemB_def
        exCartItemStale_def exProductB_def)
  have h5: "''c9'' \<notin> set (map ci_id (db_cartItems exDb))"
    by (simp add: exDb_def exCartItemA_def exCartItemB_def exCartItemStale_def)
  have run: "addToCart ''c9'' ''u2'' ''B'' (-2) exDb
       = (Inr (\<lparr>ci_id = ''c9'', ci_userId = ''u2'', ci_productId = ''B'', ci_quantity = -2\<rparr>,
               exProductB),
          exDb\<lparr>db_cartItems := db_cartItems exDb
                  @ [\<lparr>ci_id = ''c9'', ci_userId = ''u2'', ci_productId = ''B'',
                       ci_quantity = -2\<rparr>]\<rparr>)"
    by (simp add: addToCart_def Let_def product_findUnique_def exDb_def exProductA_def
        exProductB_def exCartItemA_def exCartItemB_def exCartItemStale_def)
  show ?thesis
    using h1 h2 h3 h4 h5 run
      addToCart_accepts_nonpositive_quantity[OF h1 h2 h3 h4 h5,
        of "\<lparr>req_userId = ''u2'', req_role = ''USER''\<rparr>"]
    by simp
qed

section \<open>Properties of order lookup\<close>

lemma find_None_filter_owner:
  "\<forall>ord\<in>set xs. ord_id ord = orderId \<longrightarrow> ord_userId ord \<noteq> u \<Longrightarrow>
   find (\<lambda>ord. ord_id ord = orderId \<and> ord_userId ord = u) xs = None"
  by (induction xs) auto

lemma find_filter_other_id:
  "find (\<lambda>ord. ord_id ord = orderId \<and> ord_userId ord = u)
     (filter (\<lambda>ord. ord_id ord \<noteq> orderId) xs) = None"
  by (induction xs) auto

text \<open>
  C8. When a scoping user is given and every order with the requested identifier
  belongs to somebody else, \<open>getOrderById\<close> returns nothing: the same result as on
  the tables with that order removed. For a caller who is not an administrator the
  controller answers 404 \<open>Order not found\<close> in both cases; it has no other answer,
  such as 403, for this request.
\<close>

theorem getOrderById_hides_foreign_orders:
  assumes "u \<noteq> []"
    and "\<forall>ord\<in>set (db_orders d). ord_id ord = orderId \<longrightarrow> ord_userId ord \<noteq> u"
  shows "getOrderById orderId (Some u) d = None
       \<and> getOrderById orderId (Some u) d
           = getOrderById orderId (Some u)
               (d\<lparr>db_orders := filter (\<lambda>ord. ord_id ord \<noteq> orderId) (db_orders d)\<rparr>)
       \<and> (req_userId r = u \<and> req_role r \<noteq> ''ADMIN'' \<longrightarrow>
            OrderController_getOrder (Some r) orderId d
              = Failure 404 (Literal ''Order not found'')
            \<and> OrderController_getOrder (Some r) orderId d
              = OrderController_getOrder (Some r) orderId
                  (d\<lparr>db_orders := filter (\<lambda>ord. ord_id ord \<noteq> orderId) (db_orders d)\<rparr>))"
  using assms
  by (simp add: getOrderById_def OrderController_getOrder_def order_findUnique_def
      find_None_filter_owner find_filter_other_id)

theorem getOrderById_hides_foreign_orders_witness:
  "''u1'' \<noteq> []
   \<and> map ord_userId (filter (\<lambda>ord. ord_id ord = ''o1'') (db_orders exDb)) = [''u2'']
   \<and> getOrderById ''o1'' (Some ''u1'') exDb = None
   \<and> getOrderById ''o1'' (Some ''u2'') exDb = Some (exOrder, [exOrderItem])
   \<and> OrderController_getOrder (Some \<lparr>req_userId = ''u1'', req_role = ''USER''\<rparr>) ''o1'' exDb
       = Failure 404 (Literal ''Order not found'')"
proof -
  have h1: "''u1'' \<noteq> []"
    by simp
  have h2: "\<forall>ord\<in>set (db_orders exDb). ord_id ord = ''o1'' \<longrightarrow> ord_userId ord \<noteq> ''u1''"
    by (simp add: exDb_def exOrder_def)
  have own: "getOrderById ''o1'' (Some ''u2'') exDb = Some (exOrder, [exOrderItem])"
    by (simp add: getOrderById_def order_findUnique_def order_items_def exDb_def exOrder_def
        exOrderItem_def)
  have owner: "map ord_userId (filter (\<lambda>ord. ord_id ord = ''o1'') (db_orders exDb)) = [''u2'']"
    by (simp add: exDb_def exOrder_def)
  show ?thesis
    using h1 owner own
      getOrderById_hides_foreign_orders[OF h1 h2,
        of "\<lparr>req_userId = ''u1'', req_role = ''USER''\<rparr>"]
    by simp
qed

section \<open>Statements of a transaction\<close>

lemma tx_execAll_orderItems:
  "tx_execAll fails (map OrderItemCreate is) tx = Inr tx' \<Longrightarrow>
   tx' = tx\<lparr>db_orderItems := db_orderItems tx @ is\<rparr>"
proof (induction "is" arbitrary: tx)
  case Nil
  then show ?case by simp
next
  case (Cons i "is")
  from Cons.prems have
    "tx_execAll fails (map OrderItemCreate is) (tx\<lparr>db_orderItems := db_orderItems tx @ [i]\<rparr>)
       = Inr tx'"
    by (auto simp: tx_exec_def split: if_splits sum.splits)
  from Cons.IH[OF this] show ?case by simp
qed

lemma map_prod_id_update:
  "map prod_id (map (\<lambda>p. if prod_id p = i then p\<lparr>prod_stock := f p\<rparr> else p) ps)
     = map prod_id ps"
  by (induction ps) auto

lemma stock_minus_Nil: "map (\<lambda>p. p\<lparr>prod_stock := prod_stock p - qtyFor (prod_id p) []\<rparr>) ps = ps"
  by (induction ps) (auto simp: qtyFor_def)

lemma stock_plus_Nil: "map (\<lambda>p. p\<lparr>prod_stock := prod_stock p + qtyFor (prod_id p) []\<rparr>) ps = ps"
  by (induction ps) (auto simp: qtyFor_def)

lemma stock_minus_Cons:
  "map (\<lambda>p. p\<lparr>prod_stock := prod_stock p - qtyFor (prod_id p) ls\<rparr>)
     (map (\<lambda>p. if prod_id p = fst l then p\<lparr>prod_stock := prod_stock p - snd l\<rparr> else p) ps)
   = map (\<lambda>p. p\<lparr>prod_stock := prod_stock p - qtyFor (prod_id p) (l # ls)\<rparr>) ps"
  by (induction ps) (auto simp: qtyFor_def)

lemma stock_plus_Cons:
  "map (\<lambda>p. p\<lparr>prod_stock := prod_stock p + qtyFor (prod_id p) ls\<rparr>)
     (map (\<lambda>p. if prod_id p = fst l then p\<lparr>prod_stock := prod_stock p + snd l\<rparr> else p) ps)
   = map (\<lambda>p. p\<lparr>prod_stock := prod_stock p + qtyFor (prod_id p) (l # ls)\<rparr>) ps"
  by (induction ps) (auto simp: qtyFor_def)

lemma tx_execAll_decrement:
  "tx_execAll fails (map (\<lambda>l. ProductStockDecrement (fst l) (snd l)) ls) tx = Inr tx' \<Longrightarrow>
   tx' = tx\<lparr>db_products := map (\<lambda>p. p\<lparr>prod_stock := prod_stock p - qtyFor (prod_id p) ls\<rparr>) (db_products tx)\<rparr>"
proof (induction ls arbitrary: tx)
  case Nil
  then show ?case by (simp add: stock_minus_Nil stock_plus_Nil)
next
  case (Cons l ls)
  let ?tx1 = "tx\<lparr>db_products :=
      map (\<lambda>p. if prod_id p = fst l then p\<lparr>prod_stock := prod_stock p - snd l\<rparr> else p)
        (db_products tx)\<rparr>"
  from Cons.prems have
    "tx_execAll fails (map (\<lambda>l. ProductStockDecrement (fst l) (snd l)) ls) ?tx1 = Inr tx'"
    by (auto simp: tx_exec_def split: if_splits sum.splits)
  from Cons.IH[OF this] show ?case by (simp add: stock_minus_Cons del: map_map)
qed

lemma tx_execAll_increment:
  "tx_execAll fails (map (\<lambda>l. ProductStockIncrement (fst l) (snd l)) ls) tx = Inr tx' \<Longrightarrow>
   tx' = tx\<lparr>db_products := map (\<lambda>p. p\<lparr>prod_stock := prod_stock p + qtyFor (prod_id p) ls\<rparr>) (db_products tx)\<rparr>"
proof (induction ls arbitrary: tx)
  case Nil
  then show ?case by (simp add: stock_minus_Nil stock_plus_Nil)
next
  case (Cons l ls)
  let ?tx1 = "tx\<lparr>db_products :=
      map (\<lambda>p. if prod_id p = fst l then p\<lparr>prod_stock := prod_stock p + snd l\<rparr> else p)
        (db_products tx)\<rparr>"
  from Cons.prems have
    "tx_execAll fails (map (\<lambda>l. ProductStockIncrement (fst l) (snd l)) ls) ?tx1 = Inr tx'"
    by (auto simp: tx_exec_def split: if_splits sum.splits)
  from Cons.IH[OF this] show ?case by (simp add: stock_plus_Cons del: map_map)
qed

text \<open>Success of the batch when nothing is rejected and the products exist.\<close>

lemma tx_execAll_decrement_ok:
  "\<forall>w. \<not> fails w \<Longrightarrow> fst ` set ls \<subseteq> set (map prod_id (db_products tx)) \<Longrightarrow>
   \<exists>tx'. tx_execAll fails (map (\<lambda>l. ProductStockDecrement (fst l) (snd l)) ls) tx = Inr tx'"
proof (induction ls arbitrary: tx)
  case Nil
  then show ?case by simp
next
  case (Cons l ls)
  let ?tx1 = "tx\<lparr>db_products :=
      map (\<lambda>p. if prod_id p = fst l then p\<lparr>prod_stock := prod_stock p - snd l\<rparr> else p)
        (db_products tx)\<rparr>"
  have ids: "map prod_id (db_products ?tx1) = map prod_id (db_products tx)"
    by (simp add: map_prod_id_update del: map_map)
  have "fst ` set ls \<subseteq> set (map prod_id (db_products ?tx1))"
    unfolding ids using Cons.prems(2) by simp
  from Cons.IH[OF Cons.prems(1) this] Cons.prems show ?case
    by (auto simp: tx_exec_def)
qed

lemma tx_execAll_orderItems_ok:
  "\<forall>w. \<not> fails w \<Longrightarrow> \<exists>tx'. tx_execAll fails (map OrderItemCreate is) tx = Inr tx'"
  by (induction "is" arbitrary: tx) (auto simp: tx_exec_def)

section \<open>Checkout: what a run of createOrder does\<close>

lemma tx_execAll_orderItems_map:
  "tx_execAll fails (map (\<lambda>x. OrderItemCreate (f x)) xs) tx = Inr tx' \<Longrightarrow>
   tx' = tx\<lparr>db_orderItems := db_orderItems tx @ map f xs\<rparr>"
  using tx_execAll_orderItems[of fails "map f xs" tx tx'] by (simp add: comp_def)

lemma tx_execAll_decrement_map:
  "tx_execAll fails (map (\<lambda>x. ProductStockDecrement (f x) (g x)) xs) tx = Inr tx' \<Longrightarrow>
   tx' = tx\<lparr>db_products :=
          map (\<lambda>p. p\<lparr>prod_stock := prod_stock p - qtyFor (prod_id p) (map (\<lambda>x. (f x, g x)) xs)\<rparr>)
            (db_products tx)\<rparr>"
  using tx_execAll_decrement[of fails "map (\<lambda>x. (f x, g x)) xs" tx tx'] by (simp add: comp_def)

lemma tx_execAll_increment_map:
  "tx_execAll fails (map (\<lambda>x. ProductStockIncrement (f x) (g x)) xs) tx = Inr tx' \<Longrightarrow>
   tx' = tx\<lparr>db_products :=
          map (\<lambda>p. p\<lparr>prod_stock := prod_stock p + qtyFor (prod_id p) (map (\<lambda>x. (f x, g x)) xs)\<rparr>)
            (db_products tx)\<rparr>"
  using tx_execAll_increment[of fails "map (\<lambda>x. (f x, g x)) xs" tx tx'] by (simp add: comp_def)

lemma find_order_append_new:
  "i \<notin> ord_id ` set xs \<Longrightarrow> ord_id x = i \<Longrightarrow>
   find (\<lambda>ord. ord_id ord = i) (xs @ [x]) = Some x"
  by (induction xs) auto

lemma createOrderTx_Inr:
  assumes "createOrderTx fails newId userId orderData cart tx = Inr (r, tx')"
  shows "newId \<notin> set (map ord_id (db_orders tx))
     \<and> (\<exists>ord. ord_id ord = newId \<and> ord_userId ord = userId \<and> ord_status ord = PENDING
          \<and> ord_paymentStatus ord = PAYMENT_PENDING
          \<and> ord_totalAmount ord = cs_total cart
          \<and> ord_shippingAddress ord = shippingAddressOf orderData
          \<and> ord_paymentMethod ord = paymentMethod orderData
          \<and> tx' = tx\<lparr> db_orders := db_orders tx @ [ord],
                       db_orderItems := db_orderItems tx @ map (orderItemData newId) (cs_items cart),
                       db_products :=
                         map (\<lambda>p. p\<lparr>prod_stock := prod_stock p - qtyFor (prod_id p)
                                 (map (\<lambda>item. (ci_productId (fst item), ci_quantity (fst item)))
                                    (cs_items cart))\<rparr>) (db_products tx),
                       db_cartItems := filter (\<lambda>c. ci_userId c \<noteq> userId) (db_cartItems tx) \<rparr>
          \<and> r = Some (ord, order_items newId tx'))"
proof -
  let ?newOrder = "\<lparr> ord_id = newId, ord_userId = userId, ord_status = PENDING,
              ord_totalAmount = cs_total cart,
              ord_shippingAddress = shippingAddressOf orderData,
              ord_paymentMethod = paymentMethod orderData,
              ord_paymentStatus = PAYMENT_PENDING \<rparr>"
  from assms obtain tx1 tx2 tx3 tx4 where
    1: "tx_exec fails (OrderCreate ?newOrder) tx = Inr tx1"
    and 2: "tx_execAll fails (map (\<lambda>cartItem. OrderItemCreate (orderItemData newId cartItem))
                     (cs_items cart)) tx1 = Inr tx2"
    and 3: "tx_execAll fails (map (\<lambda>cartItem. ProductStockDecrement (ci_productId (fst cartItem))
                                    (ci_quantity (fst cartItem))) (cs_items cart)) tx2 = Inr tx3"
    and 4: "tx_exec fails (CartItemDeleteMany userId) tx3 = Inr tx4"
    and 5: "r = order_findUnique (\<lambda>ord. ord_id ord = newId) tx4" "tx' = tx4"
    unfolding createOrderTx_def Let_def
    by (auto split: sum.splits)
  from 1 have fresh: "newId \<notin> set (map ord_id (db_orders tx))"
    and tx1: "tx1 = tx\<lparr>db_orders := db_orders tx @ [?newOrder]\<rparr>"
    by (auto simp: tx_exec_def split: if_splits)
  note tx2 = tx_execAll_orderItems_map[OF 2]
  note tx3 = tx_execAll_decrement_map[OF 3]
  from 4 have tx4: "tx4 = tx3\<lparr>db_cartItems := filter (\<lambda>c. ci_userId c \<noteq> userId) (db_cartItems tx3)\<rparr>"
    by (auto simp: tx_exec_def split: if_splits)
  have shape: "tx4 = tx\<lparr> db_orders := db_orders tx @ [?newOrder],
                       db_orderItems := db_orderItems tx @ map (orderItemData newId) (cs_items cart),
                       db_products :=
                         map (\<lambda>p. p\<lparr>prod_stock := prod_stock p - qtyFor (prod_id p)
                                 (map (\<lambda>item. (ci_productId (fst item), ci_quantity (fst item)))
                                    (cs_items cart))\<rparr>) (db_products tx),
                       db_cartItems := filter (\<lambda>c. ci_userId c \<noteq> userId) (db_cartItems tx) \<rparr>"
    unfolding tx4 tx3 tx2 tx1 by simp
  have "find (\<lambda>ord. ord_id ord = newId) (db_orders tx4) = Some ?newOrder"
    unfolding shape using fresh by (simp add: find_order_append_new)
  then have r: "r = Some (?newOrder, order_items newId tx4)"
    using 5 by (simp add: order_findUnique_def)
  show ?thesis
    using fresh shape r 5(2) by (intro conjI exI[of _ ?newOrder]) simp_all
qed

lemma stockErrors_filter:
  "stockErrors rows =
     map (\<lambda>item. OnlyAvailableButRequested (prod_name (snd item)) (prod_stock (snd item))
                   (ci_quantity (fst item)))
         (filter (\<lambda>item. prod_stock (snd item) < ci_quantity (fst item)) rows)"
  by (induction rows) auto

lemma stockErrors_Nil_iff:
  "stockErrors rows = [] \<longleftrightarrow> (\<forall>item\<in>set rows. ci_quantity (fst item) \<le> prod_stock (snd item))"
  by (induction rows) auto

lemma validateCart_Inr:
  "validateCart userId d = Inr v \<longleftrightarrow>
     (\<exists>rows. cartItem_findMany userId d = Inr rows
        \<and> v = \<lparr> cv_isValid = (rows \<noteq> [] \<and> stockErrors rows = []),
                 cv_errors = (if rows = [] then [CartIsEmptyMsg] else []) @ stockErrors rows,
                 cv_cart = calculateCartSummary rows \<rparr>)"
  by (auto simp: validateCart_def Let_def split: sum.splits)

lemma cs_items_calculateCartSummary: "cs_items (calculateCartSummary rows) = rows"
  by (simp add: calculateCartSummary_def split: prod.splits)

lemma createOrder_Inr:
  assumes "createOrder fails newId userId orderData d = (Inr (ord, its), d')"
  shows "\<exists>rows. cartItem_findMany userId d = Inr rows \<and> rows \<noteq> []
     \<and> (\<forall>item\<in>set rows. ci_quantity (fst item) \<le> prod_stock (snd item))
     \<and> newId \<notin> set (map ord_id (db_orders d))
     \<and> ord_id ord = newId \<and> ord_userId ord = userId \<and> ord_status ord = PENDING
     \<and> ord_paymentStatus ord = PAYMENT_PENDING
     \<and> ord_totalAmount ord = cs_total (calculateCartSummary rows)
     \<and> d' = d\<lparr> db_orders := db_orders d @ [ord],
                   db_orderItems := db_orderItems d @ map (orderItemData newId) rows,
                   db_products :=
                     map (\<lambda>p. p\<lparr>prod_stock := prod_stock p - qtyFor (prod_id p)
                             (map (\<lambda>item. (ci_productId (fst item), ci_quantity (fst item)))
                                rows)\<rparr>) (db_products d),
                   db_cartItems := filter (\<lambda>c. ci_userId c \<noteq> userId) (db_cartItems d) \<rparr>
     \<and> its = order_items newId d'"
proof -
  from assms obtain v where v: "validateCart userId d = Inr v"
    unfolding createOrder_def by (auto split: sum.splits)
  then obtain rows where rows: "cartItem_findMany userId d = Inr rows"
    and vdef: "v = \<lparr> cv_isValid = (rows \<noteq> [] \<and> stockErrors rows = []),
                 cv_errors = (if rows = [] then [CartIsEmptyMsg] else []) @ stockErrors rows,
                 cv_cart = calculateCartSummary rows \<rparr>"
    unfolding validateCart_Inr by blast
  from assms v have valid: "cv_isValid v"
    unfolding createOrder_def by (auto split: if_splits)
  with vdef have ne: "rows \<noteq> []" and ok: "stockErrors rows = []"
    by simp_all
  from assms v valid obtain r where
    tx: "transaction (createOrderTx fails newId userId orderData (cv_cart v)) d = (Inr r, d')"
    and r: "r = Some (ord, its)"
    unfolding createOrder_def Let_def
    by (auto split: if_splits prod.splits sum.splits option.splits)
  from tx have body: "createOrderTx fails newId userId orderData (cv_cart v) d = Inr (r, d')"
    unfolding transaction_def by (auto split: sum.splits prod.splits)
  from createOrderTx_Inr[OF body] r vdef ne ok rows show ?thesis
    by (auto simp: cs_items_calculateCartSummary stockErrors_Nil_iff)
qed

lemma createOrder_Inl:
  assumes "createOrder fails newId userId orderData d = (Inl e, d')"
  shows "d' = d"
proof (cases "validateCart userId d")
  case (Inl e')
  with assms show ?thesis by (simp add: createOrder_def)
next
  case (Inr v)
  show ?thesis
  proof (cases "cv_isValid v \<and> length (cs_items (cv_cart v)) \<noteq> 0")
    case False
    with assms Inr show ?thesis
      by (auto simp: createOrder_def Let_def split: if_splits)
  next
    case True
    show ?thesis
    proof (cases "createOrderTx fails newId userId orderData (cv_cart v) d")
      case (Inl e')
      with assms Inr True show ?thesis
        by (simp add: createOrder_def Let_def transaction_def)
    next
      case (Inr res)
      obtain r tx' where res: "res = (r, tx')" by (cases res)
      from createOrderTx_Inr[OF Inr[unfolded res]] obtain x where "r = Some x"
        by blast
      with assms \<open>validateCart userId d = Inr v\<close> True Inr res show ?thesis
        by (simp add: createOrder_def Let_def transaction_def)
    qed
  qed
qed

lemma find_product_SomeD:
  "find (\<lambda>p. prod_id p = i) ps = Some p \<Longrightarrow> p \<in> set ps \<and> prod_id p = i"
  by (induction ps) (auto split: if_splits)

lemma includeProduct_products:
  "includeProduct d cs = Inr rows \<Longrightarrow>
   \<forall>item\<in>set rows. ci_productId (fst item) \<in> set (map prod_id (db_products d))"
proof (induction cs arbitrary: rows)
  case Nil
  then show ?case by simp
next
  case (Cons c cs)
  from Cons.prems obtain p rest where
    p: "find (\<lambda>p. prod_id p = ci_productId c) (db_products d) = Some p"
    and rest: "includeProduct d cs = Inr rest" and rows: "rows = (c, p) # rest"
    by (auto simp: product_findUnique_def split: option.splits sum.splits)
  from p have "ci_productId c \<in> set (map prod_id (db_products d))"
    using find_product_SomeD[OF p] by force
  with Cons.IH[OF rest] rows show ?case by simp
qed

lemma createOrderTx_ok:
  assumes nofail: "\<forall>w. \<not> fails w"
    and fresh: "newId \<notin> set (map ord_id (db_orders tx))"
    and prods: "\<forall>item\<in>set (cs_items cart). ci_productId (fst item) \<in> set (map prod_id (db_products tx))"
  shows "\<exists>r tx'. createOrderTx fails newId userId orderData cart tx = Inr (r, tx')"
proof -
  let ?newOrder = "\<lparr> ord_id = newId, ord_userId = userId, ord_status = PENDING,
              ord_totalAmount = cs_total cart,
              ord_shippingAddress = shippingAddressOf orderData,
              ord_paymentMethod = paymentMethod orderData,
              ord_paymentStatus = PAYMENT_PENDING \<rparr>"
  let ?tx1 = "tx\<lparr>db_orders := db_orders tx @ [?newOrder]\<rparr>"
  have 1: "tx_exec fails (OrderCreate ?newOrder) tx = Inr ?tx1"
    using nofail fresh by (simp add: tx_exec_def)
  from tx_execAll_orderItems_ok[OF nofail, of "map (orderItemData newId) (cs_items cart)" ?tx1]
  obtain tx2 where 2: "tx_execAll fails
      (map (\<lambda>cartItem. OrderItemCreate (orderItemData newId cartItem)) (cs_items cart)) ?tx1 = Inr tx2"
    by (auto simp: comp_def)
  from tx_execAll_orderItems_map[OF 2] have p2: "db_products tx2 = db_products tx"
    by simp
  have "fst ` set (map (\<lambda>item. (ci_productId (fst item), ci_quantity (fst item))) (cs_items cart))
          \<subseteq> set (map prod_id (db_products tx2))"
    unfolding p2 using prods by auto
  from tx_execAll_decrement_ok[OF nofail this]
  obtain tx3 where 3: "tx_execAll fails
      (map (\<lambda>cartItem. ProductStockDecrement (ci_productId (fst cartItem))
                                    (ci_quantity (fst cartItem))) (cs_items cart)) tx2 = Inr tx3"
    by (auto simp: comp_def)
  have 4: "tx_exec fails (CartItemDeleteMany userId) tx3
             = Inr (tx3\<lparr>db_cartItems := filter (\<lambda>c. ci_userId c \<noteq> userId) (db_cartItems tx3)\<rparr>)"
    using nofail by (simp add: tx_exec_def)
  show ?thesis
    unfolding createOrderTx_def Let_def using 1 2 3 4 by simp
qed

lemma createOrder_ok:
  assumes rows: "cartItem_findMany userId d = Inr rows"
    and ne: "rows \<noteq> []"
    and stock: "\<forall>item\<in>set rows. ci_quantity (fst item) \<le> prod_stock (snd item)"
    and fresh: "newId \<notin> set (map ord_id (db_orders d))"
    and nofail: "\<forall>w. \<not> fails w"
  shows "\<exists>ord its d'. createOrder fails newId userId orderData d = (Inr (ord, its), d')"
proof -
  let ?v = "\<lparr> cv_isValid = (rows \<noteq> [] \<and> stockErrors rows = []),
                 cv_errors = (if rows = [] then [CartIsEmptyMsg] else []) @ stockErrors rows,
                 cv_cart = calculateCartSummary rows \<rparr>"
  have v: "validateCart userId d = Inr ?v"
    unfolding validateCart_Inr using rows by blast
  have valid: "cv_isValid ?v"
    using ne stock by (simp add: stockErrors_Nil_iff)
  have prods: "\<forall>item\<in>set (cs_items (cv_cart ?v)).
      ci_productId (fst item) \<in> set (map prod_id (db_products d))"
    using includeProduct_products[OF rows[unfolded cartItem_findMany_def]]
    by (simp add: cs_items_calculateCartSummary)
  from createOrderTx_ok[OF nofail fresh prods, of userId orderData]
  obtain r tx' where body: "createOrderTx fails newId userId orderData (cv_cart ?v) d = Inr (r, tx')"
    by blast
  from createOrderTx_Inr[OF body] obtain x where r: "r = Some x"
    by blast
  obtain ord its where x: "x = (ord, its)" by (cases x)
  have "createOrder fails newId userId orderData d = (Inr (ord, its), tx')"
    unfolding createOrder_def Let_def transaction_def
    using v valid ne body r x by (simp add: cs_items_calculateCartSummary)
  then show ?thesis by blast
qed

lemma includeProduct_fst: "includeProduct d cs = Inr rows \<Longrightarrow> map fst rows = cs"
  by (induction cs arbitrary: rows) (auto split: option.splits sum.splits)

lemma includeProduct_current:
  "includeProduct d cs = Inr rows \<Longrightarrow>
   \<forall>item\<in>set rows. product_findUnique (ci_productId (fst item)) d = Some (snd item)"
  by (induction cs arbitrary: rows) (auto split: option.splits sum.splits)

lemma qtyFor_distinct:
  "distinct (map fst ls) \<Longrightarrow> l \<in> set ls \<Longrightarrow> qtyFor (fst l) ls = snd l"
proof (induction ls)
  case Nil
  then show ?case by simp
next
  case (Cons a ls)
  have none: "filter (\<lambda>x. fst x = fst a) ls = []" if "fst a \<notin> fst ` set ls"
    using that by (induction ls) auto
  from Cons show ?case
    by (auto simp: qtyFor_def none image_iff)
qed

lemma tx_execAll_accepted:
  "tx_execAll fails ws tx = Inr tx' \<Longrightarrow> \<forall>w\<in>set ws. \<not> fails w"
  by (induction ws arbitrary: tx) (auto simp: tx_exec_def split: sum.splits if_splits)

lemma createOrderTx_accepted:
  assumes "createOrderTx fails newId userId orderData cart tx = Inr (r, tx')"
  shows "(\<forall>item\<in>set (cs_items cart).
            \<not> fails (OrderItemCreate (orderItemData newId item))
          \<and> \<not> fails (ProductStockDecrement (ci_productId (fst item)) (ci_quantity (fst item))))
       \<and> \<not> fails (CartItemDeleteMany userId)"
proof -
  from assms obtain tx1 tx2 tx3 tx4 where
    2: "tx_execAll fails (map (\<lambda>cartItem. OrderItemCreate (orderItemData newId cartItem))
                     (cs_items cart)) tx1 = Inr tx2"
    and 3: "tx_execAll fails (map (\<lambda>cartItem. ProductStockDecrement (ci_productId (fst cartItem))
                                    (ci_quantity (fst cartItem))) (cs_items cart)) tx2 = Inr tx3"
    and 4: "tx_exec fails (CartItemDeleteMany userId) tx3 = Inr tx4"
    unfolding createOrderTx_def Let_def
    by (auto split: sum.splits)
  from tx_execAll_accepted[OF 2] tx_execAll_accepted[OF 3] 4 show ?thesis
    by (auto simp: tx_exec_def split: if_splits)
qed

lemma createOrder_accepted:
  assumes "createOrder fails newId userId orderData d = (Inr (ord, its), d')"
    and "cartItem_findMany userId d = Inr rows"
  shows "(\<forall>item\<in>set rows.
            \<not> fails (OrderItemCreate (orderItemData newId item))
          \<and> \<not> fails (ProductStockDecrement (ci_productId (fst item)) (ci_quantity (fst item))))
       \<and> \<not> fails (CartItemDeleteMany userId)"
proof -
  from assms have v: "validateCart userId d = Inr 
       \<lparr> cv_isValid = (rows \<noteq> [] \<and> stockErrors rows = []),
                 cv_errors = (if rows = [] then [CartIsEmptyMsg] else []) @ stockErrors rows,
                 cv_cart = calculateCartSummary rows \<rparr>" (is "_ = Inr ?v")
    unfolding validateCart_Inr by blast
  from assms(1) v obtain r where
    tx: "transaction (createOrderTx fails newId userId orderData (cv_cart ?v)) d = (Inr r, d')"
    unfolding createOrder_def Let_def
    by (auto split: if_splits prod.splits sum.splits option.splits)
  then have "createOrderTx fails newId userId orderData (cv_cart ?v) d = Inr (r, d')"
    unfolding transaction_def by (auto split: sum.splits prod.splits)
  from createOrderTx_accepted[OF this] show ?thesis
    by (simp add: cs_items_calculateCartSummary)
qed

text \<open>
  C2. A run of \<open>createOrder\<close> either succeeds or leaves every table as it was.
  When it succeeds, the cart rows of the user were read with their products; one order
  with the new identifier, status PENDING and payment status PENDING has been appended;
  one order item per cart row has been appended, in the order of the cart rows; the
  stock of every product has gone down by the quantity the cart held of it (the
  quantity of the one cart row that names it, when the rows name distinct products, as
  the unique key of the cart table ensures); the user's cart is empty; and no statement
  of the transaction was rejected. When it fails, for whatever reason and at whatever
  statement, orders, order items, stock and cart are unchanged. A cart that validates is
  checked out successfully when the identifier is new and no statement is rejected.
\<close>

theorem createOrder_atomic:
  "(\<forall>ord its d'. createOrder fails newId userId orderData d = (Inr (ord, its), d') \<longrightarrow>
      (\<exists>rows. cartItem_findMany userId d = Inr rows
         \<and> map fst rows = filter (\<lambda>c. ci_userId c = userId) (db_cartItems d)
         \<and> rows \<noteq> []
         \<and> ord_id ord = newId \<and> ord_userId ord = userId
         \<and> ord_status ord = PENDING \<and> ord_paymentStatus ord = PAYMENT_PENDING
         \<and> db_orders d' = db_orders d @ [ord]
         \<and> db_orderItems d' = db_orderItems d @ map (orderItemData newId) rows
         \<and> db_products d' =
             map (\<lambda>p. p\<lparr>prod_stock := prod_stock p - qtyFor (prod_id p)
                     (map (\<lambda>item. (ci_productId (fst item), ci_quantity (fst item))) rows)\<rparr>)
                 (db_products d)
         \<and> (distinct (map (\<lambda>item. ci_productId (fst item)) rows) \<longrightarrow>
              (\<forall>item\<in>set rows.
                 qtyFor (ci_productId (fst item))
                   (map (\<lambda>item. (ci_productId (fst item), ci_quantity (fst item))) rows)
                   = ci_quantity (fst item)))
         \<and> db_cartItems d' = filter (\<lambda>c. ci_userId c \<noteq> userId) (db_cartItems d)
         \<and> cartItem_findMany userId d' = Inr []
         \<and> (\<forall>item\<in>set rows.
               \<not> fails (OrderItemCreate (orderItemData newId item))
             \<and> \<not> fails (ProductStockDecrement (ci_productId (fst item))
                            (ci_quantity (fst item))))
         \<and> \<not> fails (CartItemDeleteMany userId)))
   \<and> (\<forall>e d'. createOrder fails newId userId orderData d = (Inl e, d') \<longrightarrow> d' = d)
   \<and> (\<forall>rows. cartItem_findMany userId d = Inr rows \<and> rows \<noteq> []
         \<and> (\<forall>item\<in>set rows. ci_quantity (fst item) \<le> prod_stock (snd item))
         \<and> newId \<notin> set (map ord_id (db_orders d)) \<and> (\<forall>w. \<not> fails w) \<longrightarrow>
         (\<exists>ord its d'. createOrder fails newId userId orderData d = (Inr (ord, its), d')))"
proof (intro conjI allI impI)
  fix ord its d'
  assume run: "createOrder fails newId userId orderData d = (Inr (ord, its), d')"
  from createOrder_Inr[OF run] obtain rows where
    rows: "cartItem_findMany userId d = Inr rows" and ne: "rows \<noteq> []"
    and ord: "ord_id ord = newId" "ord_userId ord = userId" "ord_status ord = PENDING"
      "ord_paymentStatus ord = PAYMENT_PENDING"
    and d': "d' = d\<lparr> db_orders := db_orders d @ [ord],
                   db_orderItems := db_orderItems d @ map (orderItemData newId) rows,
                   db_products :=
                     map (\<lambda>p. p\<lparr>prod_stock := prod_stock p - qtyFor (prod_id p)
                             (map (\<lambda>item. (ci_productId (fst item), ci_quantity (fst item)))
                                rows)\<rparr>) (db_products d),
                   db_cartItems := filter (\<lambda>c. ci_userId c \<noteq> userId) (db_cartItems d) \<rparr>"
    by blast
  have fst: "map fst rows = filter (\<lambda>c. ci_userId c = userId) (db_cartItems d)"
    using includeProduct_fst[OF rows[unfolded cartItem_findMany_def]] .
  have empty: "cartItem_findMany userId d' = Inr []"
    unfolding d' by (simp add: cartItem_findMany_def)
  have dist: "distinct (map (\<lambda>item. ci_productId (fst item)) rows) \<longrightarrow>
              (\<forall>item\<in>set rows.
                 qtyFor (ci_productId (fst item))
                   (map (\<lambda>item. (ci_productId (fst item), ci_quantity (fst item))) rows)
                   = ci_quantity (fst item))"
  proof (intro impI ballI)
    fix item
    assume dst: "distinct (map (\<lambda>item. ci_productId (fst item)) rows)" and mem: "item \<in> set rows"
    let ?ls = "map (\<lambda>item. (ci_productId (fst item), ci_quantity (fst item))) rows"
    have "distinct (map fst ?ls)" using dst by (simp add: comp_def)
    moreover have "(ci_productId (fst item), ci_quantity (fst item)) \<in> set ?ls"
      using mem by auto
    ultimately show "qtyFor (ci_productId (fst item)) ?ls = ci_quantity (fst item)"
      using qtyFor_distinct[of ?ls "(ci_productId (fst item), ci_quantity (fst item))"] by simp
  qed
  show "\<exists>rows. cartItem_findMany userId d = Inr rows
         \<and> map fst rows = filter (\<lambda>c. ci_userId c = userId) (db_cartItems d)
         \<and> rows \<noteq> []
         \<and> ord_id ord = newId \<and> ord_userId ord = userId
         \<and> ord_status ord = PENDING \<and> ord_paymentStatus ord = PAYMENT_PENDING
         \<and> db_orders d' = db_orders d @ [ord]
         \<and> db_orderItems d' = db_orderItems d @ map (orderItemData newId) rows
         \<and> db_products d' =
             map (\<lambda>p. p\<lparr>prod_stock := prod_stock p - qtyFor (prod_id p)
                     (map (\<lambda>item. (ci_productId (fst item), ci_quantity (fst item))) rows)\<rparr>)
                 (db_products d)
         \<and> (distinct (map (\<lambda>item. ci_productId (fst item)) rows) \<longrightarrow>
              (\<forall>item\<in>set rows.
                 qtyFor (ci_productId (fst item))
                   (map (\<lambda>item. (ci_productId (fst item), ci_quantity (fst item))) rows)
                   = ci_quantity (fst item)))
         \<and> db_cartItems d' = filter (\<lambda>c. ci_userId c \<noteq> userId) (db_cartItems d)
         \<and> cartItem_findMany userId d' = Inr []
         \<and> (\<forall>item\<in>set rows.
               \<not> fails (OrderItemCreate (orderItemData newId item))
             \<and> \<not> fails (ProductStockDecrement (ci_productId (fst item))
                            (ci_quantity (fst item))))
         \<and> \<not> fails (CartItemDeleteMany userId)"
    using rows fst ne ord dist empty createOrder_accepted[OF run rows]
    by (intro exI[of _ rows]) (simp add: d')
next
  fix e d'
  assume "createOrder fails newId userId orderData d = (Inl e, d')"
  then show "d' = d" by (rule createOrder_Inl)
next
  fix rows
  assume "cartItem_findMany userId d = Inr rows \<and> rows \<noteq> []
         \<and> (\<forall>item\<in>set rows. ci_quantity (fst item) \<le> prod_stock (snd item))
         \<and> newId \<notin> set (map ord_id (db_orders d)) \<and> (\<forall>w. \<not> fails w)"
  then show "\<exists>ord its d'. createOrder fails newId userId orderData d = (Inr (ord, its), d')"
    using createOrder_ok by blast
qed

theorem createOrder_atomic_witness:
  "createOrder noFaults ''o2'' ''u1'' exOrderData exDb
     = (Inr (exNewOrder, [exNewItemA, exNewItemB]), exDbAfterCheckout)
   \<and> db_orders exDbAfterCheckout = db_orders exDb @ [exNewOrder]
   \<and> cartItem_findMany ''u1'' exDbAfterCheckout = Inr []
   \<and> map prod_stock (db_products exDb) = [5, 3]
   \<and> map prod_stock (db_products exDbAfterCheckout) = [2, 2]
   \<and> failOnClearCart (CartItemDeleteMany ''u1'')
   \<and> createOrder failOnClearCart ''o2'' ''u1'' exOrderData exDb = (Inl DatabaseError, exDb)"
proof -
  have ok: "createOrder noFaults ''o2'' ''u1'' exOrderData exDb
     = (Inr (exNewOrder, [exNewItemA, exNewItemB]), exDbAfterCheckout)"
    by code_simp
  have bad: "createOrder failOnClearCart ''o2'' ''u1'' exOrderData exDb = (Inl DatabaseError, exDb)"
    by code_simp
  have rej: "failOnClearCart (CartItemDeleteMany ''u1'')"
    by (simp add: failOnClearCart_def)
  have stock: "map prod_stock (db_products exDb) = [5, 3]"
    "map prod_stock (db_products exDbAfterCheckout) = [2, 2]"
    by (simp_all add: exDb_def exDbAfterCheckout_def exProductA_def exProductB_def)
  from createOrder_atomic[of noFaults "''o2''" "''u1''" exOrderData exDb] ok
  have "db_orders exDbAfterCheckout = db_orders exDb @ [exNewOrder]
      \<and> cartItem_findMany ''u1'' exDbAfterCheckout = Inr []"
    by blast
  moreover from createOrder_atomic[of failOnClearCart "''o2''" "''u1''" exOrderData exDb] bad
  have "snd (createOrder failOnClearCart ''o2'' ''u1'' exOrderData exDb) = exDb"
    by simp
  ultimately show ?thesis
    using ok bad rej stock by simp
qed

section \<open>Checkout: prices and totals\<close>

lemma orderItemPrice_eq: "orderItemPrice p = prod_price p * (1 - discountPct p / 100)"
  by (simp add: orderItemPrice_def discountPct_def split: option.splits)






text \<open>
  C5, as stated, fails: checkout of \<open>u1\<close>'s cart stores for product B (price 0.25,
  discount 50 percent) the unit price 0.125, which is not a two-decimal amount; rounded
  per item it would be 0.13.
\<close>

theorem createOrder_unit_price_rounded_counterexample:
  "createOrder noFaults ''o2'' ''u1'' exOrderData exDb
     = (Inr (exNewOrder, [exNewItemA, exNewItemB]), exDbAfterCheckout)
   \<and> product_findUnique (oi_productId exNewItemB) exDb = Some exProductB
   \<and> prod_price exProductB = 1 / 4 \<and> prod_discount exProductB = Some 50
   \<and> oi_price exNewItemB = 1 / 8
   \<and> round2 (prod_price exProductB * (1 - 50 / 100)) = 13 / 100
   \<and> oi_price exNewItemB \<noteq> round2 (prod_price exProductB * (1 - 50 / 100))
   \<and> oi_price exNewItemB \<noteq> round2 (oi_price exNewItemB)"
proof -
  have ok: "createOrder noFaults ''o2'' ''u1'' exOrderData exDb
     = (Inr (exNewOrder, [exNewItemA, exNewItemB]), exDbAfterCheckout)"
    by code_simp
  have p: "product_findUnique (oi_productId exNewItemB) exDb = Some exProductB"
    by code_simp
  have r: "round2 (prod_price exProductB * (1 - 50 / 100)) = 13 / 100"
    by code_simp
  have r': "round2 (oi_price exNewItemB) = 13 / 100"
    by code_simp
  show ?thesis
    using ok p r r' by (simp add: exProductB_def exNewItemB_def)
qed

text \<open>
  C5, amended. For every cart row snapshotted by a successful \<open>createOrder\<close>, the
  stored order item carries the row's product and quantity, and its unit price is the
  current price of that product times (1 - discount percentage / 100), a missing
  discount counting as 0; the price is stored as computed, without rounding.
\<close>

theorem createOrder_stores_unrounded_unit_price:
  assumes run: "createOrder fails newId userId orderData d = (Inr (ord, its), d')"
  shows "\<exists>rows. cartItem_findMany userId d = Inr rows
      \<and> map fst rows = filter (\<lambda>c. ci_userId c = userId) (db_cartItems d)
      \<and> (\<forall>item\<in>set rows. product_findUnique (ci_productId (fst item)) d = Some (snd item))
      \<and> db_orderItems d' = db_orderItems d @
           map (\<lambda>item. \<lparr> oi_orderId = newId,
                          oi_productId = ci_productId (fst item),
                          oi_quantity = ci_quantity (fst item),
                          oi_price = prod_price (snd item) * (1 - discountPct (snd item) / 100) \<rparr>)
               rows"
proof -
  from createOrder_Inr[OF run] obtain rows where
    rows: "cartItem_findMany userId d = Inr rows"
    and items: "db_orderItems d' = db_orderItems d @ map (orderItemData newId) rows"
    by auto
  have "orderItemData newId = (\<lambda>item. \<lparr> oi_orderId = newId,
                          oi_productId = ci_productId (fst item),
                          oi_quantity = ci_quantity (fst item),
                          oi_price = prod_price (snd item) * (1 - discountPct (snd item) / 100) \<rparr>)"
    by (rule ext) (simp add: orderItemData_def orderItemPrice_eq)
  with rows items includeProduct_fst[OF rows[unfolded cartItem_findMany_def]]
    includeProduct_current[OF rows[unfolded cartItem_findMany_def]]
  show ?thesis by auto
qed

theorem createOrder_stores_unrounded_unit_price_witness:
  "createOrder noFaults ''o2'' ''u1'' exOrderData exDb
     = (Inr (exNewOrder, [exNewItemA, exNewItemB]), exDbAfterCheckout)
   \<and> map oi_price (db_orderItems exDbAfterCheckout) = [100, 100, 1 / 8]"
proof -
  have ok: "createOrder noFaults ''o2'' ''u1'' exOrderData exDb
     = (Inr (exNewOrder, [exNewItemA, exNewItemB]), exDbAfterCheckout)"
    by code_simp
  have "map oi_price (db_orderItems exDbAfterCheckout) = [100, 100, 1 / 8]"
    by code_simp
  with ok createOrder_stores_unrounded_unit_price[OF ok] show ?thesis
    by blast
qed

section \<open>Checkout: validation of the cart\<close>

text \<open>
  C1, as stated, fails. User \<open>u3\<close> has five of B in the cart and B has a stock of
  three. A sync would reduce the row to three, after which the cart validates and
  checkout succeeds. \<open>createOrder\<close> instead rejects the cart as it is stored, naming
  the item with its five requested and three available, and the row still holds five:
  no sync has run.
\<close>

theorem createOrder_sync_first_counterexample:
  "createOrder noFaults ''o2'' ''u3'' exOrderData exDb
     = (Inl (CartValidationFailed [OnlyAvailableButRequested ''B'' 3 5]), exDb)
   \<and> syncCartWithStock ''u3'' exDb = (Inr ([], [(''B'', 3)]), exDbSynced)
   \<and> exDbSynced \<noteq> exDb
   \<and> map_sum id cv_errors (validateCart ''u3'' exDbSynced) = Inr []
   \<and> \<not> isl (fst (createOrder noFaults ''o2'' ''u3'' exOrderData exDbSynced))"
proof -
  have 1: "createOrder noFaults ''o2'' ''u3'' exOrderData exDb
     = (Inl (CartValidationFailed [OnlyAvailableButRequested ''B'' 3 5]), exDb)"
    by code_simp
  have 2: "syncCartWithStock ''u3'' exDb = (Inr ([], [(''B'', 3)]), exDbSynced)"
    by code_simp
  have 3: "exDbSynced \<noteq> exDb"
    by code_simp
  have 4: "map_sum id cv_errors (validateCart ''u3'' exDbSynced) = Inr []"
    by code_simp
  have 5: "\<not> isl (fst (createOrder noFaults ''o2'' ''u3'' exOrderData exDbSynced))"
    by code_simp
  from 1 2 3 4 5 show ?thesis by blast
qed

text \<open>
  C1, amended. \<open>createOrder\<close> validates the cart rows as they are stored, without
  syncing them first. When there is no row, or some row asks for more than the stock of
  its product, it fails with \<open>CartValidationFailed\<close>, whose list has the entry
  \<open>Cart is empty\<close> for an empty cart and one entry for each such row, and no table has
  changed: no order has been created and no cart row removed or reduced. An order is
  created only when the stored cart is non-empty and within stock.
\<close>

theorem createOrder_validates_stored_cart:
  assumes rows: "cartItem_findMany userId d = Inr rows"
  shows "(rows = [] \<or> (\<exists>item\<in>set rows. prod_stock (snd item) < ci_quantity (fst item)) \<longrightarrow>
            createOrder fails newId userId orderData d =
              (Inl (CartValidationFailed
                      ((if rows = [] then [CartIsEmptyMsg] else []) @
                       map (\<lambda>item. OnlyAvailableButRequested (prod_name (snd item))
                                      (prod_stock (snd item)) (ci_quantity (fst item)))
                           (filter (\<lambda>item. prod_stock (snd item) < ci_quantity (fst item)) rows))),
               d))
       \<and> (\<forall>r d'. createOrder fails newId userId orderData d = (Inr r, d') \<longrightarrow>
             rows \<noteq> [] \<and> (\<forall>item\<in>set rows. ci_quantity (fst item) \<le> prod_stock (snd item)))
       \<and> map fst rows = filter (\<lambda>c. ci_userId c = userId) (db_cartItems d)"
proof (intro conjI impI allI)
  assume bad: "rows = [] \<or> (\<exists>item\<in>set rows. prod_stock (snd item) < ci_quantity (fst item))"
  then have nv: "\<not> (rows \<noteq> [] \<and> stockErrors rows = [])"
    unfolding stockErrors_Nil_iff by force
  let ?v = "\<lparr> cv_isValid = (rows \<noteq> [] \<and> stockErrors rows = []),
              cv_errors = (if rows = [] then [CartIsEmptyMsg] else []) @ stockErrors rows,
              cv_cart = calculateCartSummary rows \<rparr>"
  have v: "validateCart userId d = Inr ?v"
    unfolding validateCart_Inr using rows by blast
  have "createOrder fails newId userId orderData d
          = (Inl (CartValidationFailed (cv_errors ?v)), d)"
    unfolding createOrder_def using v nv by simp
  then show "createOrder fails newId userId orderData d =
              (Inl (CartValidationFailed
                      ((if rows = [] then [CartIsEmptyMsg] else []) @
                       map (\<lambda>item. OnlyAvailableButRequested (prod_name (snd item))
                                      (prod_stock (snd item)) (ci_quantity (fst item)))
                           (filter (\<lambda>item. prod_stock (snd item) < ci_quantity (fst item)) rows))),
               d)"
    by (simp add: stockErrors_filter)
next
  fix r d'
  assume run: "createOrder fails newId userId orderData d = (Inr r, d')"
  obtain ord its where "r = (ord, its)" by (cases r)
  from createOrder_Inr[OF run[unfolded this]] rows
  show "rows \<noteq> []" and "\<forall>item\<in>set rows. ci_quantity (fst item) \<le> prod_stock (snd item)"
    by auto
next
  show "map fst rows = filter (\<lambda>c. ci_userId c = userId) (db_cartItems d)"
    using includeProduct_fst[OF rows[unfolded cartItem_findMany_def]] .
qed

theorem createOrder_validates_stored_cart_witness:
  "cartItem_findMany ''u3'' exDb = Inr [(exCartItemStale, exProductB)]
   \<and> prod_stock exProductB < ci_quantity exCartItemStale
   \<and> createOrder noFaults ''o2'' ''u3'' exOrderData exDb
       = (Inl (CartValidationFailed [OnlyAvailableButRequested ''B'' 3 5]), exDb)
   \<and> cartItem_findMany ''u9'' exDb = Inr []
   \<and> createOrder noFaults ''o2'' ''u9'' exOrderData exDb
       = (Inl (CartValidationFailed [CartIsEmptyMsg]), exDb)"
proof -
  have r3: "cartItem_findMany ''u3'' exDb = Inr [(exCartItemStale, exProductB)]"
    by code_simp
  have r9: "cartItem_findMany ''u9'' exDb = Inr []"
    by code_simp
  have lt: "prod_stock exProductB < ci_quantity exCartItemStale"
    by code_simp
  have n: "prod_name exProductB = ''B''" "prod_stock exProductB = 3" "ci_quantity exCartItemStale = 5"
    by (simp_all add: exProductB_def exCartItemStale_def)
  from createOrder_validates_stored_cart[OF r3, of noFaults "''o2''" exOrderData] lt n
  have c3: "createOrder noFaults ''o2'' ''u3'' exOrderData exDb
       = (Inl (CartValidationFailed [OnlyAvailableButRequested ''B'' 3 5]), exDb)"
    by simp
  from createOrder_validates_stored_cart[OF r9, of noFaults "''o2''" exOrderData]
  have c9: "createOrder noFaults ''o2'' ''u9'' exOrderData exDb
       = (Inl (CartValidationFailed [CartIsEmptyMsg]), exDb)"
    by simp
  from r3 r9 lt c3 c9 show ?thesis by blast
qed

section \<open>Cancellation\<close>

lemma find_order_SomeD:
  "find (\<lambda>ord. ord_id ord = i) xs = Some x \<Longrightarrow> ord_id x = i \<and> x \<in> set xs"
  by (induction xs) (auto split: if_splits)

lemma tx_execAll_increment_ok:
  "\<forall>w. \<not> fails w \<Longrightarrow> fst ` set ls \<subseteq> set (map prod_id (db_products tx)) \<Longrightarrow>
   \<exists>tx'. tx_execAll fails (map (\<lambda>l. ProductStockIncrement (fst l) (snd l)) ls) tx = Inr tx'"
proof (induction ls arbitrary: tx)
  case Nil
  then show ?case by simp
next
  case (Cons l ls)
  let ?tx1 = "tx\<lparr>db_products :=
      map (\<lambda>p. if prod_id p = fst l then p\<lparr>prod_stock := prod_stock p + snd l\<rparr> else p)
        (db_products tx)\<rparr>"
  have ids: "map prod_id (db_products ?tx1) = map prod_id (db_products tx)"
    by (simp add: map_prod_id_update del: map_map)
  have "fst ` set ls \<subseteq> set (map prod_id (db_products ?tx1))"
    unfolding ids using Cons.prems(2) by simp
  from Cons.IH[OF Cons.prems(1) this] Cons.prems show ?case
    by (auto simp: tx_exec_def)
qed

lemma cancelOrder_Inr:
  assumes found: "find (\<lambda>ord. ord_id ord = orderId) (db_orders d) = Some cur"
    and run: "cancelOrder fails orderId requestingUserId d = (Inr r, d')"
  shows "ord_status cur \<in> {PENDING, CONFIRMED}
       \<and> (\<forall>u. requestingUserId = Some u \<and> u \<noteq> [] \<longrightarrow> ord_userId cur = u)
       \<and> r = (cur\<lparr>ord_status := CANCELLED\<rparr>, order_items orderId d)
       \<and> d' = d\<lparr> db_products :=
                    map (\<lambda>p. p\<lparr>prod_stock := prod_stock p + qtyFor (prod_id p)
                            (map (\<lambda>i. (oi_productId i, oi_quantity i)) (order_items orderId d))\<rparr>)
                        (db_products d),
                  db_orders :=
                    map (\<lambda>ord. if ord_id ord = orderId then ord\<lparr>ord_status := CANCELLED\<rparr> else ord)
                        (db_orders d) \<rparr>"
proof -
  from find_order_SomeD[OF found] have cid: "ord_id cur = orderId" by simp
  have fu: "order_findUnique (\<lambda>ord. ord_id ord = orderId) d = Some (cur, order_items orderId d)"
    using found cid by (simp add: order_findUnique_def)
  from run fu have auth: "\<forall>u. requestingUserId = Some u \<and> u \<noteq> [] \<longrightarrow> ord_userId cur = u"
    and st: "ord_status cur \<in> {PENDING, CONFIRMED}"
    unfolding cancelOrder_def Let_def
    by (auto split: option.splits if_splits)
  from run fu auth st obtain tx1 tx2 where
    1: "tx_execAll fails (map (\<lambda>item. ProductStockIncrement (oi_productId item) (oi_quantity item))
                            (order_items orderId d)) d = Inr tx1"
    and 2: "tx_exec fails (OrderUpdateStatus orderId CANCELLED) tx1 = Inr tx2"
    and 3: "r = (cur\<lparr>ord_status := CANCELLED\<rparr>, order_items orderId d)" "d' = tx2"
    unfolding cancelOrder_def Let_def transaction_def
    by (auto split: option.splits if_splits sum.splits)
  note tx1 = tx_execAll_increment_map[OF 1]
  from 2 have tx2: "tx2 = tx1\<lparr>db_orders :=
      map (\<lambda>ord. if ord_id ord = orderId then ord\<lparr>ord_status := CANCELLED\<rparr> else ord)
        (db_orders tx1)\<rparr>"
    by (auto simp: tx_exec_def split: if_splits)
  show ?thesis
    using auth st 3 unfolding tx2 tx1 by simp
qed

lemma cancelOrder_Inl:
  "cancelOrder fails orderId requestingUserId d = (Inl e, d') \<Longrightarrow> d' = d"
  unfolding cancelOrder_def Let_def transaction_def
  by (auto split: option.splits if_splits sum.splits prod.splits)

lemma cancelOrder_ok:
  assumes found: "find (\<lambda>ord. ord_id ord = orderId) (db_orders d) = Some cur"
    and st: "ord_status cur \<in> {PENDING, CONFIRMED}"
    and auth: "\<forall>u. requestingUserId = Some u \<and> u \<noteq> [] \<longrightarrow> ord_userId cur = u"
    and nofail: "\<forall>w. \<not> fails w"
    and prods: "\<forall>i\<in>set (order_items orderId d). oi_productId i \<in> set (map prod_id (db_products d))"
  shows "\<exists>r d'. cancelOrder fails orderId requestingUserId d = (Inr r, d')"
proof -
  from find_order_SomeD[OF found] have cid: "ord_id cur = orderId"
    and mem: "orderId \<in> set (map ord_id (db_orders d))" by auto
  have fu: "order_findUnique (\<lambda>ord. ord_id ord = orderId) d = Some (cur, order_items orderId d)"
    using found cid by (simp add: order_findUnique_def)
  have "fst ` set (map (\<lambda>i. (oi_productId i, oi_quantity i)) (order_items orderId d))
          \<subseteq> set (map prod_id (db_products d))"
    using prods by auto
  from tx_execAll_increment_ok[OF nofail this] obtain tx1 where
    1: "tx_execAll fails (map (\<lambda>item. ProductStockIncrement (oi_productId item) (oi_quantity item))
                            (order_items orderId d)) d = Inr tx1"
    by (auto simp: comp_def)
  from tx_execAll_increment_map[OF 1] have "db_orders tx1 = db_orders d"
    by simp
  with mem nofail have 2: "\<exists>tx2. tx_exec fails (OrderUpdateStatus orderId CANCELLED) tx1 = Inr tx2"
    by (simp add: tx_exec_def)
  from fu st auth 1 2 show ?thesis
    unfolding cancelOrder_def Let_def transaction_def
    by (auto split: option.splits)
qed

lemma cancelOrder_forbidden:
  assumes found: "find (\<lambda>ord. ord_id ord = orderId) (db_orders d) = Some cur"
    and "u \<noteq> []" "ord_userId cur \<noteq> u"
  shows "cancelOrder fails orderId (Some u) d = (Inl UnauthorizedToCancel, d)"
proof -
  from find_order_SomeD[OF found] have cid: "ord_id cur = orderId" by simp
  have fu: "order_findUnique (\<lambda>ord. ord_id ord = orderId) d = Some (cur, order_items orderId d)"
    using found cid by (simp add: order_findUnique_def)
  show ?thesis
    unfolding cancelOrder_def using fu assms(2,3) by simp
qed

lemma cancelOrder_not_cancellable:
  assumes found: "find (\<lambda>ord. ord_id ord = orderId) (db_orders d) = Some cur"
    and auth: "\<forall>u. requestingUserId = Some u \<and> u \<noteq> [] \<longrightarrow> ord_userId cur = u"
    and st: "ord_status cur \<notin> {PENDING, CONFIRMED}"
  shows "cancelOrder fails orderId requestingUserId d = (Inl (CannotCancelOrder (ord_status cur)), d)"
proof -
  from find_order_SomeD[OF found] have cid: "ord_id cur = orderId" by simp
  have fu: "order_findUnique (\<lambda>ord. ord_id ord = orderId) d = Some (cur, order_items orderId d)"
    using found cid by (simp add: order_findUnique_def)
  show ?thesis
    unfolding cancelOrder_def Let_def using fu auth st by (auto split: option.splits)
qed

text \<open>
  C6. For an order that exists: a call with a requesting user who does not own the
  order fails with \<open>UnauthorizedToCancel\<close>; a permitted call on an order that is
  neither PENDING nor CONFIRMED fails with \<open>CannotCancelOrder\<close>. A call that succeeds
  was permitted and found the order PENDING or CONFIRMED; it has raised the stock of
  every product by the quantity the order's items hold of it (by the item's quantity
  when the items name distinct products), set the order's status to CANCELLED, and
  changed nothing else. Stock and status change together: a call that fails, at
  whatever statement of the transaction, leaves all tables unchanged. A permitted call
  on a PENDING or CONFIRMED order succeeds when no statement is rejected and the
  products of its items exist.
\<close>

theorem cancelOrder_restores_stock:
  assumes found: "find (\<lambda>ord. ord_id ord = orderId) (db_orders d) = Some cur"
  shows
    "(\<forall>u. requestingUserId = Some u \<and> u \<noteq> [] \<and> ord_userId cur \<noteq> u \<longrightarrow>
         cancelOrder fails orderId requestingUserId d = (Inl UnauthorizedToCancel, d))
     \<and> ((\<forall>u. requestingUserId = Some u \<and> u \<noteq> [] \<longrightarrow> ord_userId cur = u)
           \<and> ord_status cur \<notin> {PENDING, CONFIRMED} \<longrightarrow>
         cancelOrder fails orderId requestingUserId d
           = (Inl (CannotCancelOrder (ord_status cur)), d))
     \<and> (\<forall>r d'. cancelOrder fails orderId requestingUserId d = (Inr r, d') \<longrightarrow>
           ord_status cur \<in> {PENDING, CONFIRMED}
         \<and> (\<forall>u. requestingUserId = Some u \<and> u \<noteq> [] \<longrightarrow> ord_userId cur = u)
         \<and> r = (cur\<lparr>ord_status := CANCELLED\<rparr>, order_items orderId d)
         \<and> db_products d' =
             map (\<lambda>p. p\<lparr>prod_stock := prod_stock p + qtyFor (prod_id p)
                     (map (\<lambda>i. (oi_productId i, oi_quantity i)) (order_items orderId d))\<rparr>)
                 (db_products d)
         \<and> (distinct (map oi_productId (order_items orderId d)) \<longrightarrow>
              (\<forall>i\<in>set (order_items orderId d).
                 qtyFor (oi_productId i)
                   (map (\<lambda>i. (oi_productId i, oi_quantity i)) (order_items orderId d))
                   = oi_quantity i))
         \<and> db_orders d' =
             map (\<lambda>ord. if ord_id ord = orderId then ord\<lparr>ord_status := CANCELLED\<rparr> else ord)
                 (db_orders d)
         \<and> find (\<lambda>ord. ord_id ord = orderId) (db_orders d') = Some (cur\<lparr>ord_status := CANCELLED\<rparr>)
         \<and> db_cartItems d' = db_cartItems d
         \<and> db_orderItems d' = db_orderItems d)
     \<and> (\<forall>e d'. cancelOrder fails orderId requestingUserId d = (Inl e, d') \<longrightarrow> d' = d)
     \<and> (ord_status cur \<in> {PENDING, CONFIRMED}
           \<and> (\<forall>u. requestingUserId = Some u \<and> u \<noteq> [] \<longrightarrow> ord_userId cur = u)
           \<and> (\<forall>w. \<not> fails w)
           \<and> (\<forall>i\<in>set (order_items orderId d).
                 oi_productId i \<in> set (map prod_id (db_products d))) \<longrightarrow>
         (\<exists>r d'. cancelOrder fails orderId requestingUserId d = (Inr r, d')))"
proof (intro conjI allI impI)
  fix u
  assume "requestingUserId = Some u \<and> u \<noteq> [] \<and> ord_userId cur \<noteq> u"
  then show "cancelOrder fails orderId requestingUserId d = (Inl UnauthorizedToCancel, d)"
    using cancelOrder_forbidden[OF found] by blast
next
  assume "(\<forall>u. requestingUserId = Some u \<and> u \<noteq> [] \<longrightarrow> ord_userId cur = u)
           \<and> ord_status cur \<notin> {PENDING, CONFIRMED}"
  then show "cancelOrder fails orderId requestingUserId d
           = (Inl (CannotCancelOrder (ord_status cur)), d)"
    using cancelOrder_not_cancellable[OF found] by blast
next
  fix r d'
  assume run: "cancelOrder fails orderId requestingUserId d = (Inr r, d')"
  note c = cancelOrder_Inr[OF found run]
  from c show "ord_status cur \<in> {PENDING, CONFIRMED}" by blast
  from c show "r = (cur\<lparr>ord_status := CANCELLED\<rparr>, order_items orderId d)" by blast
  from c have d': "d' = d\<lparr> db_products :=
                    map (\<lambda>p. p\<lparr>prod_stock := prod_stock p + qtyFor (prod_id p)
                            (map (\<lambda>i. (oi_productId i, oi_quantity i)) (order_items orderId d))\<rparr>)
                        (db_products d),
                  db_orders :=
                    map (\<lambda>ord. if ord_id ord = orderId then ord\<lparr>ord_status := CANCELLED\<rparr> else ord)
                        (db_orders d) \<rparr>"
    by blast
  show "db_products d' =
             map (\<lambda>p. p\<lparr>prod_stock := prod_stock p + qtyFor (prod_id p)
                     (map (\<lambda>i. (oi_productId i, oi_quantity i)) (order_items orderId d))\<rparr>)
                 (db_products d)"
    unfolding d' by simp
  show "db_orders d' =
             map (\<lambda>ord. if ord_id ord = orderId then ord\<lparr>ord_status := CANCELLED\<rparr> else ord)
                 (db_orders d)"
    unfolding d' by simp
  show "find (\<lambda>ord. ord_id ord = orderId) (db_orders d') = Some (cur\<lparr>ord_status := CANCELLED\<rparr>)"
    unfolding d' using found by (simp add: find_map_setStatus)
  show "db_cartItems d' = db_cartItems d" "db_orderItems d' = db_orderItems d"
    unfolding d' by simp_all
  show "ord_userId cur = u" if "requestingUserId = Some u \<and> u \<noteq> []" for u
    using that c by blast
  show "\<forall>i\<in>set (order_items orderId d).
          qtyFor (oi_productId i)
            (map (\<lambda>i. (oi_productId i, oi_quantity i)) (order_items orderId d))
            = oi_quantity i"
    if dst: "distinct (map oi_productId (order_items orderId d))"
  proof
    fix i
    assume mem: "i \<in> set (order_items orderId d)"
    let ?ls = "map (\<lambda>i. (oi_productId i, oi_quantity i)) (order_items orderId d)"
    have "distinct (map fst ?ls)" using dst by (simp add: comp_def)
    moreover have "(oi_productId i, oi_quantity i) \<in> set ?ls"
      using mem by auto
    ultimately show "qtyFor (oi_productId i) ?ls = oi_quantity i"
      using qtyFor_distinct[of ?ls "(oi_productId i, oi_quantity i)"] by simp
  qed
next
  fix e d'
  assume "cancelOrder fails orderId requestingUserId d = (Inl e, d')"
  then show "d' = d" by (rule cancelOrder_Inl)
next
  assume "ord_status cur \<in> {PENDING, CONFIRMED}
           \<and> (\<forall>u. requestingUserId = Some u \<and> u \<noteq> [] \<longrightarrow> ord_userId cur = u)
           \<and> (\<forall>w. \<not> fails w)
           \<and> (\<forall>i\<in>set (order_items orderId d).
                 oi_productId i \<in> set (map prod_id (db_products d)))"
  then show "\<exists>r d'. cancelOrder fails orderId requestingUserId d = (Inr r, d')"
    using cancelOrder_ok[OF found] by blast
qed

theorem cancelOrder_restores_stock_witness:
  "find (\<lambda>ord. ord_id ord = ''o1'') (db_orders exDb) = Some exOrder
   \<and> ord_status exOrder = CONFIRMED
   \<and> order_items ''o1'' exDb = [exOrderItem]
   \<and> oi_productId exOrderItem = ''A'' \<and> oi_quantity exOrderItem = 3
   \<and> cancelOrder noFaults ''o1'' (Some ''u2'') exDb
       = (Inr (exOrder\<lparr>ord_status := CANCELLED\<rparr>, [exOrderItem]), exDbAfterCancel)
   \<and> map prod_stock (db_products exDb) = [5, 3]
   \<and> map prod_stock (db_products exDbAfterCancel) = [5 + 3, 3]
   \<and> find (\<lambda>ord. ord_id ord = ''o1'') (db_orders exDbAfterCancel)
       = Some (exOrder\<lparr>ord_status := CANCELLED\<rparr>)
   \<and> cancelOrder noFaults ''o1'' (Some ''u1'') exDb = (Inl UnauthorizedToCancel, exDb)"
proof -
  have h: "find (\<lambda>ord. ord_id ord = ''o1'') (db_orders exDb) = Some exOrder"
    by code_simp
  have run: "cancelOrder noFaults ''o1'' (Some ''u2'') exDb
       = (Inr (exOrder\<lparr>ord_status := CANCELLED\<rparr>, [exOrderItem]), exDbAfterCancel)"
    by code_simp
  have facts: "ord_status exOrder = CONFIRMED" "order_items ''o1'' exDb = [exOrderItem]"
    "oi_productId exOrderItem = ''A''" "oi_quantity exOrderItem = 3"
    "map prod_stock (db_products exDb) = [5, 3]"
    "map prod_stock (db_products exDbAfterCancel) = [5 + 3, 3]"
    "ord_userId exOrder \<noteq> ''u1''"
    by code_simp+
  note t2 = cancelOrder_restores_stock[OF h, of "Some ''u2''" noFaults]
  note t1 = cancelOrder_restores_stock[OF h, of "Some ''u1''" noFaults]
  from t2 run have st: "find (\<lambda>ord. ord_id ord = ''o1'') (db_orders exDbAfterCancel)
       = Some (exOrder\<lparr>ord_status := CANCELLED\<rparr>)"
    by blast
  from t1 facts(7) have no: "cancelOrder noFaults ''o1'' (Some ''u1'') exDb
       = (Inl UnauthorizedToCancel, exDb)"
    by simp
  from h run facts st no show ?thesis
    by blast
qed

end
